theory Spec2Isabelle
  imports Complex_Main "HOL-Library.AList"
begin

section \<open>JSON values as Go's encoding/json decodes them\<close>

text \<open>
  \<^verbatim>\<open>json.Unmarshal\<close> into \<^verbatim>\<open>interface{}\<close> yields \<^verbatim>\<open>nil\<close>, \<^verbatim>\<open>bool\<close>,
  \<^verbatim>\<open>float64\<close>, \<^verbatim>\<open>string\<close>, \<^verbatim>\<open>[]interface{}\<close> or \<^verbatim>\<open>map[string]interface{}\<close>.
  The sanitizer never inspects a number, so the number type is a parameter.
  A Go map is given by its entries in the order in which \<^verbatim>\<open>range\<close> visits them; the
  keys of a Go map are pairwise distinct, and \<^verbatim>\<open>m[k] = v\<close> is \<^const>\<open>AList.update\<close>.
\<close>

datatype 'n json =
    JNull
  | JBool bool
  | JNum 'n
  | JStr string
  | JArr "'n json list"
  | JObj "(string \<times> 'n json) list"

type_synonym 'n doc = "(string \<times> 'n json) list"

section \<open>pkg/sanitizer/sanitizer.go\<close>

text \<open>
  \<open>SanitizeJSON_range\<close> is the loop \<^verbatim>\<open>for key, value := range data\<close> with the map
  \<^verbatim>\<open>result\<close> built so far, and \<open>SanitizeJSON_body\<close> is one iteration of it, a
  \<^verbatim>\<open>continue\<close> leaving \<^verbatim>\<open>result\<close> as it is; likewise for \<^verbatim>\<open>sanitizeArray\<close>, where
  \<^verbatim>\<open>append\<close> adds at the end. Log calls have no effect on the result and are left out.
\<close>

function SanitizeJSON :: "'n doc \<Rightarrow> 'n doc"
and SanitizeJSON_range :: "'n doc \<Rightarrow> 'n doc \<Rightarrow> 'n doc"
and SanitizeJSON_body :: "string \<Rightarrow> 'n json \<Rightarrow> 'n doc \<Rightarrow> 'n doc"
and sanitizeArray :: "'n json list \<Rightarrow> 'n json list"
and sanitizeArray_range :: "'n json list \<Rightarrow> 'n json list \<Rightarrow> 'n json list"
and sanitizeArray_body :: "'n json \<Rightarrow> 'n json list \<Rightarrow> 'n json list"
where
  "SanitizeJSON data = SanitizeJSON_range data []"
| "SanitizeJSON_range [] result = result"
| "SanitizeJSON_range ((key, val) # rest) result =
     SanitizeJSON_range rest (SanitizeJSON_body key val result)"
| "SanitizeJSON_body key val result =
     (if key = ''.'' \<or> key = ''..'' then result
      else if key = ''lastModifiedDate'' \<and> (val = JStr '''' \<or> val = JNull) then result
      else (case val of
          JObj v \<Rightarrow>
            (let sanitized = SanitizeJSON v
             in if length sanitized > 0 then AList.update key (JObj sanitized) result
                else result)
        | JArr v \<Rightarrow>
            (let sanitized = sanitizeArray v
             in if length sanitized > 0 then AList.update key (JArr sanitized) result
                else result)
        | JStr v \<Rightarrow>
            (if v \<noteq> '''' then AList.update key val result else result)
        | _ \<Rightarrow>
            (if val \<noteq> JNull then AList.update key val result else result)))"
| "sanitizeArray arr = sanitizeArray_range arr []"
| "sanitizeArray_range [] result = result"
| "sanitizeArray_range (val # rest) result =
     sanitizeArray_range rest (sanitizeArray_body val result)"
| "sanitizeArray_body val result =
     (case val of
          JObj v \<Rightarrow>
            (let sanitized = SanitizeJSON v
             in if length sanitized > 0 then result @ [JObj sanitized] else result)
        | JArr v \<Rightarrow>
            (let sanitized = sanitizeArray v
             in if length sanitized > 0 then result @ [JArr sanitized] else result)
        | _ \<Rightarrow>
            (if val \<noteq> JNull then result @ [val] else result))"
  by pat_completeness auto
termination
  by (relation "measure (\<lambda>x. case x of
        Inl (Inl d) \<Rightarrow> 2 * size_list (size_prod (\<lambda>_. 0) size) d + 2
      | Inl (Inr (Inl (d, r))) \<Rightarrow> 2 * size_list (size_prod (\<lambda>_. 0) size) d + 1
      | Inl (Inr (Inr (k, v, r))) \<Rightarrow> 2 * size v + 1
      | Inr (Inl a) \<Rightarrow> 2 * size_list size a + 2
      | Inr (Inr (Inl (a, r))) \<Rightarrow> 2 * size_list size a + 1
      | Inr (Inr (Inr (v, r))) \<Rightarrow> 2 * size v + 1)") auto

section \<open>main.go: the sanitizer inlined in the earlier entry point\<close>

function main_sanitizeJSON :: "'n doc \<Rightarrow> 'n doc"
and main_sanitizeJSON_range :: "'n doc \<Rightarrow> 'n doc \<Rightarrow> 'n doc"
and main_sanitizeJSON_body :: "string \<Rightarrow> 'n json \<Rightarrow> 'n doc \<Rightarrow> 'n doc"
and main_sanitizeArray :: "'n json list \<Rightarrow> 'n json list"
and main_sanitizeArray_range :: "'n json list \<Rightarrow> 'n json list \<Rightarrow> 'n json list"
and main_sanitizeArray_body :: "'n json \<Rightarrow> 'n json list \<Rightarrow> 'n json list"
where
  "main_sanitizeJSON data = main_sanitizeJSON_range data []"
| "main_sanitizeJSON_range [] result = result"
| "main_sanitizeJSON_range ((key, val) # rest) result =
     main_sanitizeJSON_range rest (main_sanitizeJSON_body key val result)"
| "main_sanitizeJSON_body key val result =
     (if key = ''.'' \<or> key = ''..'' then result
      else if key = ''lastModifiedDate'' \<and> (val = JStr '''' \<or> val = JNull) then result
      else (case val of
          JObj v \<Rightarrow>
            (let sanitized = main_sanitizeJSON v
             in if length sanitized > 0 then AList.update key (JObj sanitized) result
                else result)
        | JArr v \<Rightarrow>
            (let sanitized = main_sanitizeArray v
             in if length sanitized > 0 then AList.update key (JArr sanitized) result
                else result)
        | JStr v \<Rightarrow>
            (if v \<noteq> '''' then AList.update key val result else result)
        | _ \<Rightarrow>
            (if val \<noteq> JNull then AList.update key val result else result)))"
| "main_sanitizeArray arr = main_sanitizeArray_range arr []"
| "main_sanitizeArray_range [] result = result"
| "main_sanitizeArray_range (val # rest) result =
     main_sanitizeArray_range rest (main_sanitizeArray_body val result)"
| "main_sanitizeArray_body val result =
     (case val of
          JObj v \<Rightarrow> result @ [JObj (main_sanitizeJSON v)]
        | JArr v \<Rightarrow> result @ [JArr (main_sanitizeArray v)]
        | _ \<Rightarrow> result @ [val])"
  by pat_completeness auto
termination
  by (relation "measure (\<lambda>x. case x of
        Inl (Inl d) \<Rightarrow> 2 * size_list (size_prod (\<lambda>_. 0) size) d + 2
      | Inl (Inr (Inl (d, r))) \<Rightarrow> 2 * size_list (size_prod (\<lambda>_. 0) size) d + 1
      | Inl (Inr (Inr (k, v, r))) \<Rightarrow> 2 * size v + 1
      | Inr (Inl a) \<Rightarrow> 2 * size_list size a + 2
      | Inr (Inr (Inl (a, r))) \<Rightarrow> 2 * size_list size a + 1
      | Inr (Inr (Inr (v, r))) \<Rightarrow> 2 * size v + 1)") auto

section \<open>internal/elasticsearch/client.go\<close>

text \<open>
  The remote service and the HTTP library are the environment of the client:
  \<^verbatim>\<open>http.NewRequest\<close> may refuse a URL, and the \<open>k\<close>-th call of \<^verbatim>\<open>client.Do\<close> either
  fails in the transport or yields a status code and a body that \<^verbatim>\<open>io.ReadAll\<close> reads
  (\<open>None\<close>: the read fails). What the client does to the world is recorded as a trace of
  the requests it sends and the pauses it makes. A duration is a number of nanoseconds,
  as \<^verbatim>\<open>time.Duration\<close> (an \<^verbatim>\<open>int64\<close>) is.
\<close>

record ElasticsearchConfig =
  URL :: string
  APIKey :: string
  Index :: string

datatype http_result =
    TransportError string
  | Response nat "string option"

record Client =
  config :: ElasticsearchConfig

record http_env =
  NewRequest_error :: "string \<Rightarrow> string option"
  Do_result :: "nat \<Rightarrow> http_result"

record 'n http_request =
  req_method :: string
  req_url :: string
  req_header :: "(string \<times> string) list"
  req_body :: "'n doc"

datatype 'n event =
    Do "'n http_request"
  | Sleep int

record 'n world =
  calls :: nat
  trace :: "'n event list"

datatype send_error =
    CreatingRequest string
  | SendingRequest string
  | StatusUnreadable nat
  | StatusResponse nat string

datatype index_error =
    Marshaling string
  | AllRetriesFailed "send_error option"

definition time_Second :: int where
  "time_Second = 1000000000"

definition maxRetries :: nat where
  "maxRetries = 3"

definition retryInterval :: int where
  "retryInterval = 1 * time_Second"

text \<open>
  \<^verbatim>\<open>json.Marshal\<close> fails only on values that have no JSON form (channels, functions,
  non-finite floats); a tree of type \<^typ>\<open>'n json\<close> has one, so the error branch of
  the source is kept and never taken. The bytes are represented by the document they
  encode.
\<close>

definition json_Marshal :: "'n doc \<Rightarrow> string + 'n doc" where
  "json_Marshal data = Inr data"

definition time_Sleep :: "int \<Rightarrow> 'n world \<Rightarrow> 'n world" where
  "time_Sleep d w = w\<lparr>trace := trace w @ [Sleep d]\<rparr>"

definition client_Do :: "http_env \<Rightarrow> 'n http_request \<Rightarrow> 'n world \<Rightarrow> http_result \<times> 'n world" where
  "client_Do env req w =
     (Do_result env (calls w), w\<lparr>calls := calls w + 1, trace := trace w @ [Do req]\<rparr>)"

definition sendRequest ::
  "http_env \<Rightarrow> Client \<Rightarrow> string \<Rightarrow> 'n doc \<Rightarrow> 'n world \<Rightarrow> send_error option \<times> 'n world"
where
  "sendRequest env c url body w =
     (case NewRequest_error env url of
        Some err \<Rightarrow> (Some (CreatingRequest err), w)
      | None \<Rightarrow>
          (let req = \<lparr>req_method = ''POST'', req_url = url,
                      req_header = [(''Content-Type'', ''application/json''),
                                    (''Authorization'', ''ApiKey '' @ APIKey (config c))],
                      req_body = body\<rparr>
           in case client_Do env req w of
                (TransportError err, w') \<Rightarrow> (Some (SendingRequest err), w')
              | (Response statusCode respBody, w') \<Rightarrow>
                  (if statusCode \<ge> 400 then
                     (case respBody of
                        None \<Rightarrow> (Some (StatusUnreadable statusCode), w')
                      | Some b \<Rightarrow> (Some (StatusResponse statusCode b), w'))
                   else (None, w'))))"

function IndexDocument_for ::
  "http_env \<Rightarrow> Client \<Rightarrow> string \<Rightarrow> 'n doc \<Rightarrow> nat \<Rightarrow> send_error option \<Rightarrow> 'n world
     \<Rightarrow> index_error option \<times> 'n world"
where
  "IndexDocument_for env c esURL body attempt lastErr w =
     (if attempt \<le> maxRetries then
        (case sendRequest env c esURL body w of
           (Some err, w') \<Rightarrow>
             (if attempt < maxRetries
              then IndexDocument_for env c esURL body (attempt + 1) (Some err)
                     (time_Sleep retryInterval w')
              else (Some (AllRetriesFailed (Some err)), w'))
         | (None, w') \<Rightarrow> (None, w'))
      else (Some (AllRetriesFailed lastErr), w))"
  by pat_completeness auto
termination
  by (relation "measure (\<lambda>(env, c, esURL, body, attempt, lastErr, w). maxRetries + 1 - attempt)")
     auto

declare IndexDocument_for.simps [simp del]

definition IndexDocument ::
  "http_env \<Rightarrow> Client \<Rightarrow> 'n doc \<Rightarrow> 'n world \<Rightarrow> index_error option \<times> 'n world"
where
  "IndexDocument env c data w =
     (case json_Marshal data of
        Inl err \<Rightarrow> (Some (Marshaling err), w)
      | Inr body \<Rightarrow>
          (let esURL = URL (config c) @ ''/'' @ Index (config c) @ ''/_doc''
           in IndexDocument_for env c esURL body 1 None w))"

section \<open>internal/worker/pool.go\<close>

text \<open>
  The pool's client is the one \<^verbatim>\<open>Server.Start\<close> installs before it registers the
  handler. A \<open>Request\<close> holds the response writer and the HTTP request; its \<^verbatim>\<open>Done\<close>
  channel, on which the deferred function sends when \<^verbatim>\<open>processRequest\<close> returns, on every
  path, is not part of the state.

  A request body is given by what \<^verbatim>\<open>io.ReadAll\<close> and \<^verbatim>\<open>json.Unmarshal\<close> make of it: the
  read fails, the bytes are not JSON, or they denote a JSON value. Unmarshalling into a
  \<^verbatim>\<open>map[string]interface{}\<close> accepts an object, leaves the map \<^verbatim>\<open>nil\<close> (no entries) on
  the literal \<^verbatim>\<open>null\<close>, and reports a type error on every other value.

  A response writer has its header map, the status code once it is written, and what
  has been written to the body. The first write sets the status 200 if none is set;
  \<^verbatim>\<open>http.Error\<close> sets the headers of a plain-text reply, writes the status code and the
  message with a newline; the encoder writes the JSON text of a value.
\<close>

datatype 'n body_bytes =
    Malformed string
  | Denotes "'n json"

datatype 'n request_body =
    ReadFails string
  | Bytes "'n body_bytes"

record 'n http_Request =
  Method :: string
  Body :: "'n request_body"

datatype 'n chunk =
    Text string
  | Json "'n json"

record 'n ResponseWriter =
  Header :: "(string \<times> string) list"
  StatusCode :: "nat option"
  written :: "'n chunk list"

definition NewResponseWriter :: "'n ResponseWriter" where
  "NewResponseWriter = \<lparr>Header = [], StatusCode = None, written = []\<rparr>"

definition Header_Set :: "string \<Rightarrow> string \<Rightarrow> 'n ResponseWriter \<Rightarrow> 'n ResponseWriter" where
  "Header_Set k v w = w\<lparr>Header := AList.update k v (Header w)\<rparr>"

definition Header_Del :: "string \<Rightarrow> 'n ResponseWriter \<Rightarrow> 'n ResponseWriter" where
  "Header_Del k w = w\<lparr>Header := AList.delete k (Header w)\<rparr>"

definition WriteHeader :: "nat \<Rightarrow> 'n ResponseWriter \<Rightarrow> 'n ResponseWriter" where
  "WriteHeader code w = (case StatusCode w of None \<Rightarrow> w\<lparr>StatusCode := Some code\<rparr> | Some _ \<Rightarrow> w)"

definition http_StatusOK :: nat where "http_StatusOK = 200"
definition http_StatusBadRequest :: nat where "http_StatusBadRequest = 400"
definition http_StatusMethodNotAllowed :: nat where "http_StatusMethodNotAllowed = 405"

definition Write :: "'n chunk \<Rightarrow> 'n ResponseWriter \<Rightarrow> 'n ResponseWriter" where
  "Write c w = (let w' = WriteHeader http_StatusOK w in w'\<lparr>written := written w' @ [c]\<rparr>)"

definition http_Error :: "string \<Rightarrow> nat \<Rightarrow> 'n ResponseWriter \<Rightarrow> 'n ResponseWriter" where
  "http_Error msg code w =
     Write (Text (msg @ [CHR 0x0A]))
       (WriteHeader code
         (Header_Set ''X-Content-Type-Options'' ''nosniff''
           (Header_Set ''Content-Type'' ''text/plain; charset=utf-8''
             (Header_Del ''Content-Length'' w))))"

definition json_Encode :: "'n json \<Rightarrow> 'n ResponseWriter \<Rightarrow> 'n ResponseWriter" where
  "json_Encode v w = Write (Json v) w"

fun json_Unmarshal :: "'n body_bytes \<Rightarrow> string + 'n doc" where
  "json_Unmarshal (Malformed err) = Inl err"
| "json_Unmarshal (Denotes JNull) = Inr []"
| "json_Unmarshal (Denotes (JObj d)) = Inr d"
| "json_Unmarshal (Denotes _) =
     Inl ''json: cannot unmarshal into Go value of type map[string]interface {}''"

record 'n Request =
  W :: "'n ResponseWriter"
  R :: "'n http_Request"

record Pool =
  es :: Client

definition processRequest ::
  "http_env \<Rightarrow> Pool \<Rightarrow> 'n Request \<Rightarrow> 'n world \<Rightarrow> 'n ResponseWriter \<times> 'n world"
where
  "processRequest env p req wd =
     (let r = R req;
          w = Header_Set ''Content-Type'' ''application/json'' (W req)
      in if Method r \<noteq> ''POST''
         then (http_Error ''Only POST method is allowed'' http_StatusMethodNotAllowed w, wd)
         else (case Body r of
            ReadFails err \<Rightarrow> (http_Error (''Error reading body: '' @ err) http_StatusBadRequest w, wd)
          | Bytes body \<Rightarrow>
             (case json_Unmarshal body of
                Inl err \<Rightarrow> (http_Error (''Error parsing JSON: '' @ err) http_StatusBadRequest w, wd)
              | Inr data \<Rightarrow>
                 (let cleanData = SanitizeJSON data
                  in case IndexDocument env (es p) cleanData wd of
                       (Some err, wd') \<Rightarrow>
                         (json_Encode (JObj [(''status'', JStr ''warning''),
                                             (''message'', JStr ''Request processed but failed to store in Elasticsearch''),
                                             (''data'', JObj cleanData)]) w, wd')
                     | (None, wd') \<Rightarrow>
                         (json_Encode (JObj [(''status'', JStr ''success''),
                                             (''message'', JStr ''Data processed successfully''),
                                             (''data'', JObj cleanData)]) w, wd')))))"

section \<open>Environments and inputs for concrete runs\<close>

text \<open>
  A service that always answers 500, one that answers at the third attempt, one that is
  healthy, and a configuration whose base URL is \<open>":"\<close>: the URL \<open>":/docs/_doc"\<close> built from
  it starts with a colon, which \<^verbatim>\<open>url.Parse\<close>, and so \<^verbatim>\<open>http.NewRequest\<close>, rejects as
  lacking a protocol scheme.
\<close>

definition env_unparsable_url :: http_env where
  "env_unparsable_url =
     \<lparr>NewRequest_error = (\<lambda>url. if url = '':/docs/_doc'' then Some ''missing protocol scheme'' else None),
      Do_result = (\<lambda>k. Response 200 (Some ''''))\<rparr>"

definition env_always_500 :: http_env where
  "env_always_500 =
     \<lparr>NewRequest_error = (\<lambda>url. None),
      Do_result = (\<lambda>k. Response 500 (Some ''unavailable''))\<rparr>"

definition env_third_time_lucky :: http_env where
  "env_third_time_lucky =
     \<lparr>NewRequest_error = (\<lambda>url. None),
      Do_result = (\<lambda>k. if k = 0 then TransportError ''connection refused''
                        else if k = 1 then Response 503 None
                        else Response 201 (Some ''created''))\<rparr>"

definition es_docs :: Client where
  "es_docs = \<lparr>config = \<lparr>URL = ''https://es:9200'', APIKey = ''key'', Index = ''docs''\<rparr>\<rparr>"

definition new_world :: "'n world" where
  "new_world = \<lparr>calls = 0, trace = []\<rparr>"

definition pool_docs :: Pool where
  "pool_docs = \<lparr>es = es_docs\<rparr>"

definition post :: "'n json \<Rightarrow> 'n Request" where
  "post v = \<lparr>W = NewResponseWriter, R = \<lparr>Method = ''POST'', Body = Bytes (Denotes v)\<rparr>\<rparr>"

definition env_healthy :: http_env where
  "env_healthy =
     \<lparr>NewRequest_error = (\<lambda>url. None),
      Do_result = (\<lambda>k. Response 201 (Some ''created''))\<rparr>"

section \<open>Properties of sanitized values\<close>

text \<open>
  \<open>pruned\<close> is the invariant of the data model, read at every depth: no key \<open>"."\<close> or
  \<open>".."\<close>, and no key whose value is an empty string, null, an empty Document or an empty
  sequence, in the Document itself, in the Documents nested under its keys and in those
  nested inside its sequences.
\<close>

fun pruned :: "'n json \<Rightarrow> bool" where
  "pruned (JObj d) =
     (\<forall>(k, v) \<in> set d. k \<noteq> ''.'' \<and> k \<noteq> ''..'' \<and>
        v \<noteq> JStr '''' \<and> v \<noteq> JNull \<and> v \<noteq> JObj [] \<and> v \<noteq> JArr [] \<and> pruned v)"
| "pruned (JArr xs) = (\<forall>x \<in> set xs. pruned x)"
| "pruned _ = True"

text \<open>
  \<open>kept_elem\<close> describes the values that \<^const>\<open>sanitizeArray\<close> returns as elements, and
  \<open>sane_doc\<close> the Documents that \<^const>\<open>SanitizeJSON\<close> returns: these are the values on
  which sanitizing changes nothing.
\<close>

fun kept_elem :: "'n json \<Rightarrow> bool" where
  "kept_elem JNull = False"
| "kept_elem (JObj d) =
     (d \<noteq> [] \<and> distinct (map fst d) \<and>
      (\<forall>(k, v) \<in> set d. k \<noteq> ''.'' \<and> k \<noteq> ''..'' \<and> v \<noteq> JStr '''' \<and> kept_elem v))"
| "kept_elem (JArr xs) = (xs \<noteq> [] \<and> (\<forall>x \<in> set xs. kept_elem x))"
| "kept_elem _ = True"

definition sane_doc :: "'n doc \<Rightarrow> bool" where
  "sane_doc d =
     (distinct (map fst d) \<and>
      (\<forall>(k, v) \<in> set d. k \<noteq> ''.'' \<and> k \<noteq> ''..'' \<and> v \<noteq> JStr '''' \<and> kept_elem v))"

text \<open>
  \<open>keeps_all_elems\<close> holds of a value in which \<^const>\<open>sanitizeArray\<close> drops no element
  of any sequence: no element is null, a Document that sanitizes to the empty Document,
  or a sequence that sanitizes to the empty sequence.
\<close>

fun keeps_all_elems :: "'n json \<Rightarrow> bool" where
  "keeps_all_elems (JObj d) = (\<forall>(k, v) \<in> set d. keeps_all_elems v)"
| "keeps_all_elems (JArr xs) =
     (\<forall>x \<in> set xs. sanitizeArray_body x [] \<noteq> [] \<and> keeps_all_elems x)"
| "keeps_all_elems _ = True"

text \<open>
  \<open>no_empties\<close>: no empty Document and no empty sequence occurs in the value, neither
  under a key nor as an element of a sequence.
\<close>

fun no_empties :: "'n json \<Rightarrow> bool" where
  "no_empties (JObj d) = (\<forall>(k, v) \<in> set d. v \<noteq> JObj [] \<and> v \<noteq> JArr [] \<and> no_empties v)"
| "no_empties (JArr xs) = (\<forall>x \<in> set xs. x \<noteq> JObj [] \<and> x \<noteq> JArr [] \<and> no_empties x)"
| "no_empties _ = True"

text \<open>
  \<open>same_json\<close> relates two values that are the same JSON value: the entries of a
  Document may be listed in any order, its keys being distinct; the elements of a sequence
  are in the same order.
\<close>

fun same_json :: "'n json \<Rightarrow> 'n json \<Rightarrow> bool" where
  "same_json (JObj d1) v =
     (case v of
        JObj d2 \<Rightarrow>
          distinct (map fst d1) \<and> distinct (map fst d2) \<and> fst ` set d1 = fst ` set d2 \<and>
          (\<forall>(k1, v1) \<in> set d1. \<forall>(k2, v2) \<in> set d2. k1 = k2 \<longrightarrow> same_json v1 v2)
      | _ \<Rightarrow> False)"
| "same_json (JArr xs) v =
     (case v of JArr ys \<Rightarrow> list_all2 same_json xs ys | _ \<Rightarrow> False)"
| "same_json v1 v2 = (v1 = v2)"

section \<open>The sanitizer: what it returns, and that it is idempotent\<close>

lemmas sanitizer_induct =
  SanitizeJSON_SanitizeJSON_range_SanitizeJSON_body_sanitizeArray_sanitizeArray_range_sanitizeArray_body.induct

declare SanitizeJSON_body.simps [simp del] sanitizeArray_body.simps [simp del]

lemma update_fresh: "k \<notin> fst ` set al \<Longrightarrow> AList.update k v al = al @ [(k, v)]"
  by (induction al) auto

lemma set_update_subset: "set (AList.update k v al) \<subseteq> insert (k, v) (set al)"
  by (induction al) auto

lemma kept_elem_JObj [simp]: "kept_elem (JObj d) = (d \<noteq> [] \<and> sane_doc d)"
  by (simp add: sane_doc_def)

declare kept_elem.simps(2) [simp del]

lemma sane_doc_Nil: "sane_doc []"
  by (simp add: sane_doc_def)

lemma sane_doc_update:
  assumes "sane_doc r" "k \<noteq> ''.''" "k \<noteq> ''..''" "v \<noteq> JStr ''''" "kept_elem v"
  shows "sane_doc (AList.update k v r)"
proof -
  have "distinct (map fst (AList.update k v r))"
    using assms(1) by (simp add: sane_doc_def distinct_update)
  moreover have "\<forall>(k', v') \<in> set (AList.update k v r).
      k' \<noteq> ''.'' \<and> k' \<noteq> ''..'' \<and> v' \<noteq> JStr '''' \<and> kept_elem v'"
    using assms set_update_subset[of k v r] by (auto simp: sane_doc_def)
  ultimately show ?thesis by (simp add: sane_doc_def)
qed

lemma sane_doc_snoc:
  "sane_doc (r @ [(k, v)]) =
     (sane_doc r \<and> k \<notin> fst ` set r \<and> k \<noteq> ''.'' \<and> k \<noteq> ''..'' \<and> v \<noteq> JStr '''' \<and> kept_elem v)"
  by (auto simp: sane_doc_def)

text \<open>Whatever the input, the sanitizer returns a \<open>sane_doc\<close>.\<close>

lemma sanitized_sane:
  "sane_doc (SanitizeJSON (data :: 'n doc))"
  "sane_doc res \<longrightarrow> sane_doc (SanitizeJSON_range d (res :: 'n doc))"
  "sane_doc res \<longrightarrow> sane_doc (SanitizeJSON_body key val (res :: 'n doc))"
  "\<forall>x \<in> set (sanitizeArray (arr :: 'n json list)). kept_elem x"
  "(\<forall>x \<in> set ares. kept_elem x) \<longrightarrow>
     (\<forall>x \<in> set (sanitizeArray_range a (ares :: 'n json list)). kept_elem x)"
  "(\<forall>x \<in> set ares. kept_elem x) \<longrightarrow>
     (\<forall>x \<in> set (sanitizeArray_body aval (ares :: 'n json list)). kept_elem x)"
proof (induction data and d res and key val res and arr and a ares and aval ares
       rule: sanitizer_induct)
  case (1 data)
  then show ?case by (simp add: sane_doc_Nil)
next
  case (4 key val result)
  show ?case
  proof (cases val)
    case (JObj v)
    with 4 show ?thesis
      by (auto simp: SanitizeJSON_body.simps Let_def intro!: sane_doc_update)
  next
    case (JArr v)
    with 4 show ?thesis
      by (auto simp: SanitizeJSON_body.simps Let_def intro!: sane_doc_update)
  qed (auto simp: SanitizeJSON_body.simps intro!: sane_doc_update)
next
  case (8 val result)
  show ?case
  proof (cases val)
    case (JObj v)
    with 8 show ?thesis
      by (auto simp: sanitizeArray_body.simps Let_def)
  next
    case (JArr v)
    with 8 show ?thesis
      by (auto simp: sanitizeArray_body.simps Let_def)
  qed (auto simp: sanitizeArray_body.simps)
qed simp_all

text \<open>On a \<open>sane_doc\<close> the sanitizer is the identity.\<close>

lemma sane_fixed:
  "sane_doc data \<longrightarrow> SanitizeJSON (data :: 'n doc) = data"
  "sane_doc (res @ d) \<longrightarrow> SanitizeJSON_range d (res :: 'n doc) = res @ d"
  "sane_doc (res @ [(key, val)]) \<longrightarrow>
     SanitizeJSON_body key val (res :: 'n doc) = res @ [(key, val)]"
  "(\<forall>x \<in> set arr. kept_elem x) \<longrightarrow> sanitizeArray (arr :: 'n json list) = arr"
  "(\<forall>x \<in> set a. kept_elem x) \<longrightarrow> sanitizeArray_range a (ares :: 'n json list) = ares @ a"
  "kept_elem aval \<longrightarrow> sanitizeArray_body aval (ares :: 'n json list) = ares @ [aval]"
proof (induction data and d res and key val res and arr and a ares and aval ares
       rule: sanitizer_induct)
  case (3 key val rest result)
  show ?case
  proof
    assume s: "sane_doc (result @ (key, val) # rest)"
    then have "sane_doc (result @ [(key, val)])"
      by (auto simp: sane_doc_def)
    with 3 have b: "SanitizeJSON_body key val result = result @ [(key, val)]" by simp
    from s 3(2) b show "SanitizeJSON_range ((key, val) # rest) result = result @ (key, val) # rest"
      by simp
  qed
next
  case (4 key val result)
  show ?case
  proof (cases val)
    case (JObj v)
    with 4 show ?thesis
      by (auto simp: SanitizeJSON_body.simps Let_def sane_doc_snoc update_fresh)
  next
    case (JArr v)
    with 4 show ?thesis
      by (auto simp: SanitizeJSON_body.simps Let_def sane_doc_snoc update_fresh)
  qed (auto simp: SanitizeJSON_body.simps sane_doc_snoc update_fresh)
next
  case (7 val rest result)
  then show ?case by auto
next
  case (8 val result)
  show ?case
  proof (cases val)
    case (JObj v)
    with 8 show ?thesis
      by (auto simp: sanitizeArray_body.simps Let_def)
  next
    case (JArr v)
    with 8 show ?thesis
      by (auto simp: sanitizeArray_body.simps Let_def)
  qed (auto simp: sanitizeArray_body.simps)
qed simp_all

text \<open>
  C3. Sanitization is idempotent: for every Document \<open>x\<close>, sanitizing the sanitized
  Document gives the sanitized Document again.
\<close>

theorem SanitizeJSON_idempotent:
  "SanitizeJSON (SanitizeJSON x) = SanitizeJSON x"
  using sane_fixed(1) [of "SanitizeJSON x"] sanitized_sane(1) [of x] by blast

lemma sanitizeArray_body_append:
  "sanitizeArray_body x r = r @ sanitizeArray_body x []"
  by (cases x) (simp_all add: sanitizeArray_body.simps Let_def)

lemma sanitizeArray_range_concat:
  "sanitizeArray_range xs r = r @ concat (map (\<lambda>x. sanitizeArray_body x []) xs)"
proof (induction xs arbitrary: r)
  case Nil
  show ?case by simp
next
  case (Cons x xs)
  show ?case
    using Cons [of "sanitizeArray_body x r"] sanitizeArray_body_append [of x r] by simp
qed

lemma sanitizeArray_concat:
  "sanitizeArray xs = concat (map (\<lambda>x. sanitizeArray_body x []) xs)"
  using sanitizeArray_range_concat [of xs "[]"] by simp

lemma sanitizeArray_append:
  "sanitizeArray (xs @ ys) = sanitizeArray xs @ sanitizeArray ys"
  by (simp add: sanitizeArray_concat del: sanitizeArray.simps)

lemma SanitizeJSON_range_append:
  "SanitizeJSON_range (xs @ ys) r = SanitizeJSON_range ys (SanitizeJSON_range xs r)"
  by (induction xs arbitrary: r) auto

lemma SanitizeJSON_body_cases:
  "SanitizeJSON_body k v r =
     (case map_of (SanitizeJSON_body k v []) k of None \<Rightarrow> r | Some v' \<Rightarrow> AList.update k v' r)"
  by (cases v) (simp_all add: SanitizeJSON_body.simps Let_def)

lemma map_of_SanitizeJSON_body:
  "map_of (SanitizeJSON_body k0 v r) k =
     (if k = k0 then (case map_of (SanitizeJSON_body k0 v []) k0 of
                        None \<Rightarrow> map_of r k | Some v' \<Rightarrow> Some v')
      else map_of r k)"
proof -
  have "map_of (case map_of (SanitizeJSON_body k0 v []) k0 of None \<Rightarrow> r | Some v' \<Rightarrow> AList.update k0 v' r) k
     = (if k = k0 then (case map_of (SanitizeJSON_body k0 v []) k0 of
                        None \<Rightarrow> map_of r k | Some v' \<Rightarrow> Some v')
      else map_of r k)"
    by (simp add: update_conv' split: option.split)
  then show ?thesis using SanitizeJSON_body_cases [of k0 v r] by simp
qed

lemma map_of_SanitizeJSON_range:
  "distinct (map fst d) \<Longrightarrow>
   map_of (SanitizeJSON_range d r) k =
     (case map_of d k of
        None \<Rightarrow> map_of r k
      | Some v \<Rightarrow> (case map_of (SanitizeJSON_body k v []) k of
                     None \<Rightarrow> map_of r k | Some v' \<Rightarrow> Some v'))"
proof (induction d arbitrary: r)
  case Nil
  show ?case by simp
next
  case (Cons e d)
  obtain k0 v0 where e: "e = (k0, v0)" by (cases e)
  from Cons.prems e have d: "distinct (map fst d)" and n: "map_of d k0 = None"
    by (auto simp: map_of_eq_None_iff)
  show ?case
    using Cons.IH [OF d, of "SanitizeJSON_body k0 v0 r"] n
    by (auto simp: e map_of_SanitizeJSON_body [of k0 v0 r] split: option.split)
qed

lemma map_of_SanitizeJSON:
  "distinct (map fst d) \<Longrightarrow>
   map_of (SanitizeJSON d) k =
     (case map_of d k of None \<Rightarrow> None | Some v \<Rightarrow> map_of (SanitizeJSON_body k v []) k)"
  using map_of_SanitizeJSON_range [of d "[]" k] by (simp split: option.split)

lemma keys_SanitizeJSON_body:
  "fst ` set (SanitizeJSON_body k v r) \<subseteq> insert k (fst ` set r)"
  using SanitizeJSON_body_cases [of k v r] by (auto simp: dom_update split: option.splits)

lemma keys_SanitizeJSON_range:
  "fst ` set (SanitizeJSON_range d r) \<subseteq> fst ` set d \<union> fst ` set r"
proof (induction d arbitrary: r)
  case Nil
  show ?case by simp
next
  case (Cons e d)
  obtain k0 v0 where e: "e = (k0, v0)" by (cases e)
  show ?case
    using Cons [of "SanitizeJSON_body k0 v0 r"] keys_SanitizeJSON_body [of k0 v0 r]
    by (auto simp: e)
qed

lemma kept_elem_pruned: "kept_elem v \<Longrightarrow> pruned v"
  by (induction v rule: pruned.induct) (fastforce simp: sane_doc_def)+

lemma SanitizeJSON_pruned: "pruned (JObj (SanitizeJSON x))"
proof -
  have "kept_elem (JObj (SanitizeJSON x)) \<or> SanitizeJSON x = []"
    using sanitized_sane(1) [of x] by simp
  then show ?thesis using kept_elem_pruned [of "JObj (SanitizeJSON x)"] by auto
qed

text \<open>
  C1, as stated, fails in its last part: a \<open>"lastModifiedDate"\<close> key whose value is neither
  the empty string nor null is not always kept. Its value can be an empty Document, and
  then the key is dropped like any other key with that value.
\<close>

theorem lastModifiedDate_empty_Document_counterexample:
  "(JObj [] :: real json) \<noteq> JStr '''' \<and> (JObj [] :: real json) \<noteq> JNull \<and>
   ''lastModifiedDate'' \<notin> fst ` set (SanitizeJSON [(''lastModifiedDate'', JObj [] :: real json)])"
  by (simp add: SanitizeJSON_body.simps)

text \<open>
  C1, amended. For every Document \<open>x\<close>, the sanitized Document contains, at every nesting
  depth (including Documents nested inside sequences), no key \<open>"."\<close> or \<open>".."\<close> and no key
  whose value is an empty string, null, an empty Document or an empty sequence; so no
  \<open>"lastModifiedDate"\<close> key whose value was the empty string or null remains. A
  \<open>"lastModifiedDate"\<close> key of a Document (a Go map: its keys are distinct) with another
  value is kept with that value when it is a non-empty string, a number or a boolean, and
  kept with the sanitized value when it is a Document or a sequence whose sanitized form is
  not empty; otherwise it is dropped.
\<close>

theorem SanitizeJSON_invariant:
  "pruned (JObj (SanitizeJSON x)) \<and>
   (distinct (map fst x) \<longrightarrow> map_of x ''lastModifiedDate'' = Some v \<longrightarrow>
      map_of (SanitizeJSON x) ''lastModifiedDate'' =
        (case v of
           JNull \<Rightarrow> None
         | JStr s \<Rightarrow> if s = '''' then None else Some v
         | JObj d \<Rightarrow> if SanitizeJSON d = [] then None else Some (JObj (SanitizeJSON d))
         | JArr a \<Rightarrow> if sanitizeArray a = [] then None else Some (JArr (sanitizeArray a))
         | _ \<Rightarrow> Some v))"
proof -
  have "map_of (SanitizeJSON_body ''lastModifiedDate'' v []) ''lastModifiedDate'' =
        (case v of
           JNull \<Rightarrow> None
         | JStr s \<Rightarrow> if s = '''' then None else Some v
         | JObj d \<Rightarrow> if SanitizeJSON d = [] then None else Some (JObj (SanitizeJSON d))
         | JArr a \<Rightarrow> if sanitizeArray a = [] then None else Some (JArr (sanitizeArray a))
         | _ \<Rightarrow> Some v)"
    by (cases v) (simp_all add: SanitizeJSON_body.simps Let_def del: SanitizeJSON.simps sanitizeArray.simps)
  then show ?thesis
    using SanitizeJSON_pruned [of x] map_of_SanitizeJSON [of x "''lastModifiedDate''"]
    by (simp del: SanitizeJSON.simps sanitizeArray.simps)
qed

text \<open>The invariant and the rule for \<open>"lastModifiedDate"\<close> at a concrete Document.\<close>

theorem SanitizeJSON_invariant_witness:
  "pruned (JObj (SanitizeJSON
      [(''lastModifiedDate'', JStr ''2024-01-01''), (''.'', JNum (1::real)),
       (''seq'', JArr [JObj [(''..'', JBool True), (''lastModifiedDate'', JNull)], JNull])])) \<and>
   distinct (map fst
      [(''lastModifiedDate'', JStr ''2024-01-01''), (''.'', JNum (1::real)),
       (''seq'', JArr [JObj [(''..'', JBool True), (''lastModifiedDate'', JNull)], JNull])]) \<and>
   map_of [(''lastModifiedDate'', JStr ''2024-01-01''), (''.'', JNum (1::real)),
       (''seq'', JArr [JObj [(''..'', JBool True), (''lastModifiedDate'', JNull)], JNull])]
     ''lastModifiedDate'' = Some (JStr ''2024-01-01'') \<and>
   map_of (SanitizeJSON
      [(''lastModifiedDate'', JStr ''2024-01-01''), (''.'', JNum (1::real)),
       (''seq'', JArr [JObj [(''..'', JBool True), (''lastModifiedDate'', JNull)], JNull])])
     ''lastModifiedDate'' = Some (JStr ''2024-01-01'')"
  using SanitizeJSON_invariant
    [of "[(''lastModifiedDate'', JStr ''2024-01-01''), (''.'', JNum (1::real)),
       (''seq'', JArr [JObj [(''..'', JBool True), (''lastModifiedDate'', JNull)], JNull])]"
        "JStr ''2024-01-01''"]
  by (simp add: SanitizeJSON_body.simps sanitizeArray_body.simps)

text \<open>
  C4, as stated, fails on empty strings: an empty-string element of a sequence is kept,
  and so is the key of a sequence that holds nothing else.
\<close>

theorem sanitizeArray_keeps_empty_string_counterexample:
  "sanitizeArray [JStr '''' :: real json] = [JStr ''''] \<and>
   SanitizeJSON [(''tags'', JArr [JStr '''' :: real json])] = [(''tags'', JArr [JStr ''''])]"
  by (simp add: SanitizeJSON_body.simps sanitizeArray_body.simps)

text \<open>
  C4, amended. When a Document key maps to a sequence, every element is sanitized: a null
  element is dropped, a nested Document or sequence is sanitized recursively and kept only
  if the result is non-empty, and every other element (a string, empty or not, a number,
  a boolean) is kept as it is, in the order of the input. Under a key other than \<open>"."\<close>
  and \<open>".."\<close> the pair survives, with the sanitized sequence, exactly when that sequence
  is non-empty.
\<close>

theorem sequence_sanitization:
  "sanitizeArray xs =
     concat (map (\<lambda>x. case x of
                     JNull \<Rightarrow> []
                   | JObj d \<Rightarrow> if SanitizeJSON d = [] then [] else [JObj (SanitizeJSON d)]
                   | JArr a \<Rightarrow> if sanitizeArray a = [] then [] else [JArr (sanitizeArray a)]
                   | _ \<Rightarrow> [x]) xs) \<and>
   (distinct (map fst doc) \<longrightarrow> map_of doc k = Some (JArr xs) \<longrightarrow> k \<noteq> ''.'' \<longrightarrow> k \<noteq> ''..'' \<longrightarrow>
      map_of (SanitizeJSON doc) k =
        (if sanitizeArray xs = [] then None else Some (JArr (sanitizeArray xs))))"
proof -
  have "(\<lambda>x :: 'a json. sanitizeArray_body x []) =
        (\<lambda>x. case x of
                     JNull \<Rightarrow> []
                   | JObj d \<Rightarrow> if SanitizeJSON d = [] then [] else [JObj (SanitizeJSON d)]
                   | JArr a \<Rightarrow> if sanitizeArray a = [] then [] else [JArr (sanitizeArray a)]
                   | _ \<Rightarrow> [x])"
    by (rule ext)
       (simp add: sanitizeArray_body.simps Let_def split: json.split
             del: SanitizeJSON.simps sanitizeArray.simps)
  then have 1: "sanitizeArray xs =
     concat (map (\<lambda>x. case x of
                     JNull \<Rightarrow> []
                   | JObj d \<Rightarrow> if SanitizeJSON d = [] then [] else [JObj (SanitizeJSON d)]
                   | JArr a \<Rightarrow> if sanitizeArray a = [] then [] else [JArr (sanitizeArray a)]
                   | _ \<Rightarrow> [x]) xs)"
    using sanitizeArray_concat [of xs] by simp
  have 2: "k \<noteq> ''.'' \<Longrightarrow> k \<noteq> ''..'' \<Longrightarrow> map_of (SanitizeJSON_body k (JArr xs) []) k =
        (if sanitizeArray xs = [] then None else Some (JArr (sanitizeArray xs)))"
    by (simp add: SanitizeJSON_body.simps Let_def del: SanitizeJSON.simps sanitizeArray.simps)
  show ?thesis
    using 1 2 map_of_SanitizeJSON [of doc k]
    by (simp del: SanitizeJSON.simps sanitizeArray.simps)
qed

text \<open>The rule for sequences at a concrete Document.\<close>

theorem sequence_sanitization_witness:
  "sanitizeArray [JStr '''', JNull, JObj [(''.'', JNum (1::real))], JArr [JNull], JBool False] =
     [JStr '''', JBool False] \<and>
   distinct (map fst [(''tags'', JArr [JStr '''', JNull, JObj [(''.'', JNum (1::real))], JArr [JNull], JBool False])]) \<and>
   map_of [(''tags'', JArr [JStr '''', JNull, JObj [(''.'', JNum (1::real))], JArr [JNull], JBool False])] ''tags''
     = Some (JArr [JStr '''', JNull, JObj [(''.'', JNum (1::real))], JArr [JNull], JBool False]) \<and>
   ''tags'' \<noteq> ''.'' \<and> ''tags'' \<noteq> ''..'' \<and>
   map_of (SanitizeJSON [(''tags'', JArr [JStr '''', JNull, JObj [(''.'', JNum (1::real))], JArr [JNull], JBool False])]) ''tags''
     = Some (JArr [JStr '''', JBool False])"
  using sequence_sanitization
    [of "[JStr '''', JNull, JObj [(''.'', JNum (1::real))], JArr [JNull], JBool False]"
        "[(''tags'', JArr [JStr '''', JNull, JObj [(''.'', JNum (1::real))], JArr [JNull], JBool False])]"
        "''tags''"]
  by (simp add: SanitizeJSON_body.simps sanitizeArray_body.simps)

lemma kept_elem_no_empties: "kept_elem v \<Longrightarrow> no_empties v"
  by (induction v rule: no_empties.induct) (fastforce simp: sane_doc_def)+

lemma SanitizeJSON_no_empties: "no_empties (JObj (SanitizeJSON x))"
proof -
  have "kept_elem (JObj (SanitizeJSON x)) \<or> SanitizeJSON x = []"
    using sanitized_sane(1) [of x] by simp
  then show ?thesis using kept_elem_no_empties [of "JObj (SanitizeJSON x)"] by auto
qed

text \<open>
  C6. A nested Document or sequence whose sanitization is empty is absent from the
  sanitized output. Under a key of a Document (a Go map: its keys are distinct), the key
  is dropped; as an element of a sequence, it contributes nothing to the surviving
  elements; and the output holds no empty Document and no empty sequence at any depth.
\<close>

theorem emptiness_propagation:
  fixes doc doc' d' x :: "'n doc" and a' :: "'n json list"
  shows
  "(distinct (map fst doc) \<longrightarrow> map_of doc k = Some (JObj d) \<longrightarrow> SanitizeJSON d = [] \<longrightarrow>
      k \<notin> fst ` set (SanitizeJSON doc)) \<and>
   (distinct (map fst doc') \<longrightarrow> map_of doc' k' = Some (JArr a) \<longrightarrow> sanitizeArray a = [] \<longrightarrow>
      k' \<notin> fst ` set (SanitizeJSON doc')) \<and>
   (SanitizeJSON d' = [] \<longrightarrow>
      sanitizeArray (xs @ JObj d' # ys) = sanitizeArray xs @ sanitizeArray ys) \<and>
   (sanitizeArray a' = [] \<longrightarrow>
      sanitizeArray (xs' @ JArr a' # ys') = sanitizeArray xs' @ sanitizeArray ys') \<and>
   no_empties (JObj (SanitizeJSON x))"
proof -
  have 1: "map_of (SanitizeJSON_body k (JObj d) []) k = None" if "SanitizeJSON d = []"
    using that by (simp add: SanitizeJSON_body.simps Let_def del: SanitizeJSON.simps)
  have 2: "map_of (SanitizeJSON_body k' (JArr a) []) k' = None" if "sanitizeArray a = []"
    using that by (simp add: SanitizeJSON_body.simps Let_def del: sanitizeArray.simps)
  have 3: "sanitizeArray [JObj d'] = []" if "SanitizeJSON d' = []"
    using that
    by (simp add: sanitizeArray_concat sanitizeArray_body.simps
             del: SanitizeJSON.simps sanitizeArray.simps)
  have 4: "sanitizeArray [JArr a'] = []" if "sanitizeArray a' = []"
    using that
    by (simp add: sanitizeArray_concat [of "[JArr a']"] sanitizeArray_body.simps
             del: SanitizeJSON.simps sanitizeArray.simps)
  have 5: "sanitizeArray (xs @ x # ys) = sanitizeArray xs @ sanitizeArray [x] @ sanitizeArray ys"
    for x :: "'n json" and xs ys
    using sanitizeArray_append [of xs "[x] @ ys"] sanitizeArray_append [of "[x]" ys] by simp
  have a: "distinct (map fst doc) \<longrightarrow> map_of doc k = Some (JObj d) \<longrightarrow> SanitizeJSON d = [] \<longrightarrow>
      k \<notin> fst ` set (SanitizeJSON doc)"
  proof (intro impI)
    assume "distinct (map fst doc)" "map_of doc k = Some (JObj d)" "SanitizeJSON d = []"
    then have "map_of (SanitizeJSON doc) k = None"
      using 1 map_of_SanitizeJSON [of doc k] by (simp del: SanitizeJSON.simps)
    then show "k \<notin> fst ` set (SanitizeJSON doc)"
      by (simp add: map_of_eq_None_iff del: SanitizeJSON.simps)
  qed
  have b: "distinct (map fst doc') \<longrightarrow> map_of doc' k' = Some (JArr a) \<longrightarrow> sanitizeArray a = [] \<longrightarrow>
      k' \<notin> fst ` set (SanitizeJSON doc')"
  proof (intro impI)
    assume "distinct (map fst doc')" "map_of doc' k' = Some (JArr a)" "sanitizeArray a = []"
    then have "map_of (SanitizeJSON doc') k' = None"
      using 2 map_of_SanitizeJSON [of doc' k']
      by (simp del: SanitizeJSON.simps sanitizeArray.simps)
    then show "k' \<notin> fst ` set (SanitizeJSON doc')"
      by (simp add: map_of_eq_None_iff del: SanitizeJSON.simps)
  qed
  have c: "SanitizeJSON d' = [] \<longrightarrow>
      sanitizeArray (xs @ JObj d' # ys) = sanitizeArray xs @ sanitizeArray ys"
    using 3 5 [of xs "JObj d'" ys] by (simp del: SanitizeJSON.simps sanitizeArray.simps)
  have d: "sanitizeArray a' = [] \<longrightarrow>
      sanitizeArray (xs' @ JArr a' # ys') = sanitizeArray xs' @ sanitizeArray ys'"
    using 4 5 [of xs' "JArr a'" ys'] by (simp del: SanitizeJSON.simps sanitizeArray.simps)
  from a b c d SanitizeJSON_no_empties [of x] show ?thesis by blast
qed

text \<open>Emptiness propagation at concrete Documents and sequences.\<close>

theorem emptiness_propagation_witness:
  "distinct (map fst [(''a'', JObj [(''x'', JNull)]), (''n'', JNum (1::real))]) \<and>
   map_of [(''a'', JObj [(''x'', JNull)]), (''n'', JNum (1::real))] ''a'' = Some (JObj [(''x'', JNull)]) \<and>
   SanitizeJSON [(''x'', JNull :: real json)] = [] \<and>
   ''a'' \<notin> fst ` set (SanitizeJSON [(''a'', JObj [(''x'', JNull)]), (''n'', JNum (1::real))]) \<and>
   distinct (map fst [(''n'', JNum (1::real)), (''s'', JArr [JNull, JArr []])]) \<and>
   map_of [(''n'', JNum (1::real)), (''s'', JArr [JNull, JArr []])] ''s'' = Some (JArr [JNull, JArr []]) \<and>
   sanitizeArray [JNull, JArr [] :: real json] = [] \<and>
   ''s'' \<notin> fst ` set (SanitizeJSON [(''n'', JNum (1::real)), (''s'', JArr [JNull, JArr []])]) \<and>
   sanitizeArray ([JNum (1::real)] @ JObj [(''x'', JNull)] # [JNum 2]) = sanitizeArray [JNum 1] @ sanitizeArray [JNum 2] \<and>
   sanitizeArray ([JNum (1::real)] @ JArr [JNull, JArr []] # [JNum 2]) = sanitizeArray [JNum 1] @ sanitizeArray [JNum 2] \<and>
   no_empties (JObj (SanitizeJSON [(''a'', JObj [(''x'', JNull)]), (''n'', JNum (1::real))]))"
  using emptiness_propagation
    [of "[(''a'', JObj [(''x'', JNull)]), (''n'', JNum (1::real))]" "''a''" "[(''x'', JNull)]"
        "[(''n'', JNum (1::real)), (''s'', JArr [JNull, JArr []])]" "''s''" "[JNull, JArr []]"
        "[(''x'', JNull)]" "[JNum 1]" "[JNum 2]"
        "[JNull, JArr []]" "[JNum 1]" "[JNum 2]"
        "[(''a'', JObj [(''x'', JNull)]), (''n'', JNum (1::real))]"]
  by (simp add: SanitizeJSON_body.simps sanitizeArray_body.simps)

text \<open>
  C7, as stated, fails under the keys \<open>"."\<close> and \<open>".."\<close>: a pair with such a key is dropped
  whatever its value, so \<open>false\<close> and \<open>0\<close> do not always survive.
\<close>

theorem dotted_key_drops_false_counterexample:
  "SanitizeJSON [(''.'', JBool False), (''..'', JNum (0::real))] = []"
  by (simp add: SanitizeJSON_body.simps)

text \<open>
  C7, amended. Boolean \<open>false\<close> and numeric \<open>0\<close> are never treated as empty:
  \<open>sanitize({"a": false, "b": 0}) = {"a": false, "b": 0}\<close>; in a Document (a Go map: its
  keys are distinct) a boolean or a number under a key other than \<open>"."\<close> and \<open>".."\<close> is
  kept with its value; and a boolean or a number that is an element of a sequence is an
  element of the sanitized sequence.
\<close>

theorem falsy_values_survive:
  fixes doc :: "('n::zero) doc" and xs :: "'n json list"
  shows
  "SanitizeJSON [(''a'', JBool False), (''b'', JNum (0::'n))] = [(''a'', JBool False), (''b'', JNum 0)] \<and>
   (distinct (map fst doc) \<longrightarrow> map_of doc k = Some v \<longrightarrow> (v = JBool b \<or> v = JNum n) \<longrightarrow>
      k \<noteq> ''.'' \<longrightarrow> k \<noteq> ''..'' \<longrightarrow> map_of (SanitizeJSON doc) k = Some v) \<and>
   ((x = JBool b' \<or> x = JNum n') \<longrightarrow> x \<in> set xs \<longrightarrow> x \<in> set (sanitizeArray xs))"
proof -
  have 1: "SanitizeJSON [(''a'', JBool False), (''b'', JNum (0::'n))] = [(''a'', JBool False), (''b'', JNum 0)]"
    by (simp add: SanitizeJSON_body.simps)
  have 2: "map_of (SanitizeJSON_body k v []) k = Some v"
    if "v = JBool b \<or> v = JNum n" "k \<noteq> ''.''" "k \<noteq> ''..''"
    using that by (auto simp: SanitizeJSON_body.simps)
  have 3: "distinct (map fst doc) \<longrightarrow> map_of doc k = Some v \<longrightarrow> (v = JBool b \<or> v = JNum n) \<longrightarrow>
      k \<noteq> ''.'' \<longrightarrow> k \<noteq> ''..'' \<longrightarrow> map_of (SanitizeJSON doc) k = Some v"
    using 2 map_of_SanitizeJSON [of doc k] by (simp del: SanitizeJSON.simps)
  have 4: "sanitizeArray_body x [] = [x]" if "x = JBool b' \<or> x = JNum n'"
    using that by (auto simp: sanitizeArray_body.simps)
  have 5: "(x = JBool b' \<or> x = JNum n') \<longrightarrow> x \<in> set xs \<longrightarrow> x \<in> set (sanitizeArray xs)"
  proof (intro impI)
    assume "x = JBool b' \<or> x = JNum n'" and m: "x \<in> set xs"
    then have "x \<in> set (sanitizeArray_body x [])" using 4 by simp
    with m have "\<exists>y \<in> set xs. x \<in> set (sanitizeArray_body y [])" by blast
    then show "x \<in> set (sanitizeArray xs)"
      by (simp add: sanitizeArray_concat del: sanitizeArray.simps)
  qed
  from 1 3 5 show ?thesis by blast
qed

text \<open>Survival of \<open>0\<close> under a key and of \<open>false\<close> in a sequence, at concrete inputs.\<close>

theorem falsy_values_survive_witness:
  "SanitizeJSON [(''a'', JBool False), (''b'', JNum (0::real))] = [(''a'', JBool False), (''b'', JNum 0)] \<and>
   distinct (map fst [(''e'', JStr ''''), (''z'', JNum (0::real)), (''f'', JBool False)]) \<and>
   map_of [(''e'', JStr ''''), (''z'', JNum (0::real)), (''f'', JBool False)] ''z'' = Some (JNum 0) \<and>
   ''z'' \<noteq> ''.'' \<and> ''z'' \<noteq> ''..'' \<and>
   map_of (SanitizeJSON [(''e'', JStr ''''), (''z'', JNum (0::real)), (''f'', JBool False)]) ''z'' = Some (JNum 0) \<and>
   JBool False \<in> set [JNull, JBool False, JNum (0::real)] \<and>
   JBool False \<in> set (sanitizeArray [JNull, JBool False, JNum (0::real)])"
  using falsy_values_survive
    [of "[(''e'', JStr ''''), (''z'', JNum (0::real)), (''f'', JBool False)]" "''z''" "JNum 0"
        False 0 "JBool False" False 0 "[JNull, JBool False, JNum (0::real)]"]
  by (simp add: SanitizeJSON_body.simps sanitizeArray_body.simps)

text \<open>
  C8, as stated, fails: on \<open>{"a": [null]}\<close> the sanitizer inlined in \<^verbatim>\<open>main.go\<close> returns the
  Document unchanged, and the library sanitizer returns the empty Document.
\<close>

theorem inline_sanitizer_differs_counterexample:
  "main_sanitizeJSON [(''a'', JArr [JNull :: real json])] = [(''a'', JArr [JNull])] \<and>
   SanitizeJSON [(''a'', JArr [JNull :: real json])] = [] \<and>
   main_sanitizeJSON [(''a'', JArr [JNull :: real json])] \<noteq> SanitizeJSON [(''a'', JArr [JNull])]"
  by (simp add: SanitizeJSON_body.simps sanitizeArray_body.simps)

lemma sanitizers_agree:
  "(\<forall>(k, v) \<in> set data. keeps_all_elems v) \<longrightarrow> main_sanitizeJSON data = SanitizeJSON (data :: 'n doc)"
  "(\<forall>(k, v) \<in> set d. keeps_all_elems v) \<longrightarrow>
     main_sanitizeJSON_range d res = SanitizeJSON_range d (res :: 'n doc)"
  "keeps_all_elems val \<longrightarrow>
     main_sanitizeJSON_body key val res = SanitizeJSON_body key val (res :: 'n doc)"
  "(\<forall>x \<in> set arr. sanitizeArray_body x [] \<noteq> [] \<and> keeps_all_elems x) \<longrightarrow>
     main_sanitizeArray arr = sanitizeArray (arr :: 'n json list)"
  "(\<forall>x \<in> set a. sanitizeArray_body x [] \<noteq> [] \<and> keeps_all_elems x) \<longrightarrow>
     main_sanitizeArray_range a ares = sanitizeArray_range a (ares :: 'n json list)"
  "sanitizeArray_body aval [] \<noteq> [] \<and> keeps_all_elems aval \<longrightarrow>
     main_sanitizeArray_body aval ares = sanitizeArray_body aval (ares :: 'n json list)"
proof (induction data and d res and key val res and arr and a ares and aval ares
       rule: sanitizer_induct)
  case (3 key val rest result)
  then show ?case by (auto simp del: main_sanitizeJSON_body.simps)
next
  case (4 key val result)
  show ?case
  proof (cases val)
    case (JObj v)
    with 4 show ?thesis
      by (auto simp: SanitizeJSON_body.simps Let_def)
  next
    case (JArr v)
    with 4 show ?thesis
      by (auto simp: SanitizeJSON_body.simps Let_def)
  qed (auto simp: SanitizeJSON_body.simps)
next
  case (7 val rest result)
  then show ?case by (auto simp del: main_sanitizeArray_body.simps)
next
  case (8 val result)
  show ?case
  proof (cases val)
    case (JObj v)
    with 8 show ?thesis
      by (auto simp: sanitizeArray_body.simps Let_def)
  next
    case (JArr v)
    with 8 show ?thesis
      by (auto simp: sanitizeArray_body.simps Let_def)
  qed (auto simp: sanitizeArray_body.simps)
qed simp_all

text \<open>
  C8, amended. The two sanitizers return the same Document on every input in which no
  sequence, at any depth, has an element that the library's \<^verbatim>\<open>sanitizeArray\<close> drops (a
  null, a Document that sanitizes to the empty Document, a sequence that sanitizes to the
  empty sequence); in particular on every Document without sequences.
\<close>

theorem sanitizers_agree_without_dropped_elements:
  "keeps_all_elems (JObj x) \<Longrightarrow> main_sanitizeJSON x = SanitizeJSON x"
  using sanitizers_agree(1) [of x] by simp

text \<open>Agreement of the two sanitizers at a concrete Document with sequences.\<close>

theorem sanitizers_agree_without_dropped_elements_witness:
  "keeps_all_elems (JObj [(''.'', JNum (1::real)), (''lastModifiedDate'', JStr ''''),
      (''o'', JObj [(''e'', JNull)]), (''s'', JArr [JStr '''', JObj [(''k'', JBool False)], JArr [JNum 0]])]) \<and>
   main_sanitizeJSON [(''.'', JNum (1::real)), (''lastModifiedDate'', JStr ''''),
      (''o'', JObj [(''e'', JNull)]), (''s'', JArr [JStr '''', JObj [(''k'', JBool False)], JArr [JNum 0]])]
   = SanitizeJSON [(''.'', JNum (1::real)), (''lastModifiedDate'', JStr ''''),
      (''o'', JObj [(''e'', JNull)]), (''s'', JArr [JStr '''', JObj [(''k'', JBool False)], JArr [JNum 0]])]"
proof -
  have h: "keeps_all_elems (JObj [(''.'', JNum (1::real)), (''lastModifiedDate'', JStr ''''),
      (''o'', JObj [(''e'', JNull)]), (''s'', JArr [JStr '''', JObj [(''k'', JBool False)], JArr [JNum 0]])])"
    by (simp add: SanitizeJSON_body.simps sanitizeArray_body.simps)
  show ?thesis
    using h sanitizers_agree_without_dropped_elements [OF h] by (rule conjI)
qed

section \<open>The sanitizer and the iteration order of Go maps\<close>

lemma stored_via_body:
  "map_of (SanitizeJSON_body k v []) k =
     (if k = ''.'' \<or> k = ''..'' \<or> v = JStr '''' then None
      else (case sanitizeArray_body v [] of [] \<Rightarrow> None | x # _ \<Rightarrow> Some x))"
  by (cases v) (simp_all add: SanitizeJSON_body.simps sanitizeArray_body.simps Let_def)

lemma same_json_JStr_Nil: "same_json v1 v2 \<Longrightarrow> v1 = JStr '''' \<longleftrightarrow> v2 = JStr ''''"
  by (cases v1; cases v2) auto

lemma same_stored:
  assumes "same_json v1 v2"
    and "list_all2 same_json (sanitizeArray_body v1 []) (sanitizeArray_body v2 [])"
  shows "rel_option same_json (map_of (SanitizeJSON_body k v1 []) k)
           (map_of (SanitizeJSON_body k v2 []) k)"
  using assms(2) same_json_JStr_Nil [OF assms(1)]
  by (auto simp: stored_via_body split: list.splits)

lemma same_json_JObj_iff:
  "same_json (JObj d1) (JObj d2) \<longleftrightarrow>
     distinct (map fst d1) \<and> distinct (map fst d2) \<and>
     (\<forall>k. rel_option same_json (map_of d1 k) (map_of d2 k))"
proof (cases "distinct (map fst d1) \<and> distinct (map fst d2)")
  case False
  then show ?thesis by auto
next
  case True
  then have m1: "\<And>k v. (k, v) \<in> set d1 \<longleftrightarrow> map_of d1 k = Some v"
    and m2: "\<And>k v. (k, v) \<in> set d2 \<longleftrightarrow> map_of d2 k = Some v"
    by auto
  have d1: "\<And>k. k \<in> fst ` set d1 \<longleftrightarrow> map_of d1 k \<noteq> None"
    and d2: "\<And>k. k \<in> fst ` set d2 \<longleftrightarrow> map_of d2 k \<noteq> None"
    by (simp_all add: map_of_eq_None_iff)
  show ?thesis
  proof
    assume s: "same_json (JObj d1) (JObj d2)"
    have "rel_option same_json (map_of d1 k) (map_of d2 k)" for k
    proof (cases "map_of d1 k")
      case None
      then have "k \<notin> fst ` set d2" using s d1 [of k] by simp
      then show ?thesis using None d2 [of k] by simp
    next
      case (Some v1)
      then have "k \<in> fst ` set d2" using s d1 [of k] by simp
      then obtain v2 where v2: "map_of d2 k = Some v2" using d2 [of k] by auto
      from Some v2 s have "same_json v1 v2"
        using m1 [of k v1] m2 [of k v2] by auto
      then show ?thesis using Some v2 by simp
    qed
    with True show "distinct (map fst d1) \<and> distinct (map fst d2) \<and>
        (\<forall>k. rel_option same_json (map_of d1 k) (map_of d2 k))" by simp
  next
    assume r: "distinct (map fst d1) \<and> distinct (map fst d2) \<and>
        (\<forall>k. rel_option same_json (map_of d1 k) (map_of d2 k))"
    have "fst ` set d1 = fst ` set d2"
    proof (rule set_eqI)
      fix k
      from r have "rel_option same_json (map_of d1 k) (map_of d2 k)" by simp
      then have "map_of d1 k \<noteq> None \<longleftrightarrow> map_of d2 k \<noteq> None"
        by (cases "map_of d1 k"; cases "map_of d2 k") auto
      then show "k \<in> fst ` set d1 \<longleftrightarrow> k \<in> fst ` set d2"
        using d1 [of k] d2 [of k] by simp
    qed
    moreover have "same_json v1 v2" if "(k, v1) \<in> set d1" "(k, v2) \<in> set d2" for k v1 v2
    proof -
      from r have "rel_option same_json (map_of d1 k) (map_of d2 k)" by simp
      then show ?thesis using that m1 [of k v1] m2 [of k v2] by simp
    qed
    ultimately show "same_json (JObj d1) (JObj d2)"
      using True by auto
  qed
qed

lemma list_all2_concat:
  "list_all2 (list_all2 P) xss yss \<Longrightarrow> list_all2 P (concat xss) (concat yss)"
  using concat_transfer [of P] by (simp add: rel_fun_def)

lemma list_all2_map_body:
  assumes "list_all2 same_json xs ys"
    and "\<And>x y. x \<in> set xs \<Longrightarrow> y \<in> set ys \<Longrightarrow> same_json x y \<Longrightarrow>
           list_all2 same_json (sanitizeArray_body x []) (sanitizeArray_body y [])"
  shows "list_all2 same_json (sanitizeArray xs) (sanitizeArray ys)"
proof -
  have "list_all2 (list_all2 same_json)
          (map (\<lambda>x. sanitizeArray_body x []) xs) (map (\<lambda>x. sanitizeArray_body x []) ys)"
    using assms
  proof (induction xs ys rule: list_all2_induct)
    case Nil
    show ?case by simp
  next
    case (Cons x xs y ys)
    then show ?case by simp
  qed
  then show ?thesis
    by (simp add: sanitizeArray_concat list_all2_concat del: sanitizeArray.simps)
qed

lemma same_json_body:
  "same_json v1 v2 \<Longrightarrow>
   list_all2 same_json (sanitizeArray_body v1 []) (sanitizeArray_body v2 [])"
proof (induction v1 v2 rule: same_json.induct)
  case (1 d1 v)
  then obtain d2 where v: "v = JObj d2" by (cases v) auto
  from 1(2) v have s: "same_json (JObj d1) (JObj d2)" by simp
  then have dist: "distinct (map fst d1)" "distinct (map fst d2)"
    and rel: "\<And>k. rel_option same_json (map_of d1 k) (map_of d2 k)"
    by (simp_all only: same_json_JObj_iff)
  have ih: "list_all2 same_json (sanitizeArray_body v1 []) (sanitizeArray_body v2 [])"
    if "map_of d1 k = Some v1" "map_of d2 k = Some v2" "same_json v1 v2" for k v1 v2
    using 1(1) [OF v, of "(k, v1)" k v1 "(k, v2)" k v2] that
    by (auto dest: map_of_SomeD)
  have "rel_option same_json (map_of (SanitizeJSON d1) k) (map_of (SanitizeJSON d2) k)" for k
  proof (cases "map_of d1 k")
    case None
    with rel [of k] have "map_of d2 k = None" by (cases "map_of d2 k") auto
    with None dist show ?thesis
      by (simp add: map_of_SanitizeJSON del: SanitizeJSON.simps)
  next
    case (Some v1)
    with rel [of k] obtain v2 where v2: "map_of d2 k = Some v2" and sv: "same_json v1 v2"
      by (cases "map_of d2 k") auto
    from same_stored [OF sv ih [OF Some v2 sv]] Some v2 dist show ?thesis
      by (simp add: map_of_SanitizeJSON del: SanitizeJSON.simps)
  qed
  moreover have "distinct (map fst (SanitizeJSON d1))" "distinct (map fst (SanitizeJSON d2))"
    using sanitized_sane(1) [of d1] sanitized_sane(1) [of d2] by (simp_all add: sane_doc_def)
  ultimately have r: "same_json (JObj (SanitizeJSON d1)) (JObj (SanitizeJSON d2))"
    by (simp only: same_json_JObj_iff) simp
  then have "fst ` set (SanitizeJSON d1) = fst ` set (SanitizeJSON d2)"
    by (simp del: SanitizeJSON.simps)
  then have "SanitizeJSON d1 = [] \<longleftrightarrow> SanitizeJSON d2 = []"
    by (metis image_is_empty set_empty)
  with r v show ?case
    by (simp add: sanitizeArray_body.simps Let_def del: SanitizeJSON.simps same_json.simps)
next
  case (2 xs v)
  then obtain ys where v: "v = JArr ys" by (cases v) auto
  from 2(2) v have l: "list_all2 same_json xs ys" by simp
  have r: "list_all2 same_json (sanitizeArray xs) (sanitizeArray ys)"
    using l 2(1) [OF v] by (rule list_all2_map_body)
  then have "sanitizeArray xs = [] \<longleftrightarrow> sanitizeArray ys = []"
    by (auto simp del: sanitizeArray.simps dest: list_all2_lengthD)
  with r v show ?case
    by (simp add: sanitizeArray_body.simps Let_def del: sanitizeArray.simps)
qed (auto simp: sanitizeArray_body.simps)

text \<open>
  The Document that \<^const>\<open>SanitizeJSON\<close> returns does not depend, as a map, on the order
  in which \<^verbatim>\<open>range\<close> visits the entries of the input and of the Documents nested in it.
\<close>

lemma SanitizeJSON_order_independent:
  "same_json (JObj d1) (JObj d2) \<Longrightarrow> same_json (JObj (SanitizeJSON d1)) (JObj (SanitizeJSON d2))"
proof -
  assume s: "same_json (JObj d1) (JObj d2)"
  from same_json_body [OF s] show ?thesis
    by (auto simp: sanitizeArray_body.simps Let_def same_json_JObj_iff sanitized_sane
             simp del: SanitizeJSON.simps same_json.simps split: if_splits)
qed

section \<open>The indexing client: the retry loop\<close>

text \<open>The loop at its third, second and first attempt, and the three attempts at once.\<close>

lemma IndexDocument_for_3:
  "IndexDocument_for env c url body 3 lastErr w =
     (case sendRequest env c url body w of
        (Some err, w') \<Rightarrow> (Some (AllRetriesFailed (Some err)), w')
      | (None, w') \<Rightarrow> (None, w'))"
  by (subst IndexDocument_for.simps) (simp add: maxRetries_def split: prod.split option.split)

lemma IndexDocument_for_2:
  "IndexDocument_for env c url body 2 lastErr w =
     (case sendRequest env c url body w of
        (Some err, w') \<Rightarrow>
          IndexDocument_for env c url body 3 (Some err) (time_Sleep retryInterval w')
      | (None, w') \<Rightarrow> (None, w'))"
  by (subst IndexDocument_for.simps) (simp add: maxRetries_def split: prod.split option.split)

lemma IndexDocument_for_1:
  "IndexDocument_for env c url body (Suc 0) lastErr w =
     (case sendRequest env c url body w of
        (Some err, w') \<Rightarrow>
          IndexDocument_for env c url body 2 (Some err) (time_Sleep retryInterval w')
      | (None, w') \<Rightarrow> (None, w'))"
  by (subst IndexDocument_for.simps)
     (simp add: maxRetries_def numeral_2_eq_2 split: prod.split option.split)

lemma IndexDocument_for_unrolled:
  "IndexDocument_for env c url body (Suc 0) lastErr w =
     (let a1 = sendRequest env c url body w;
          a2 = sendRequest env c url body (time_Sleep retryInterval (snd a1));
          a3 = sendRequest env c url body (time_Sleep retryInterval (snd a2))
      in if fst a1 = None then (None, snd a1)
         else if fst a2 = None then (None, snd a2)
         else if fst a3 = None then (None, snd a3)
         else (Some (AllRetriesFailed (fst a3)), snd a3))"
proof -
  obtain e1 w1 where a1: "sendRequest env c url body w = (e1, w1)"
    by (cases "sendRequest env c url body w")
  obtain e2 w2 where a2: "sendRequest env c url body (time_Sleep retryInterval w1) = (e2, w2)"
    by (cases "sendRequest env c url body (time_Sleep retryInterval w1)")
  obtain e3 w3 where a3: "sendRequest env c url body (time_Sleep retryInterval w2) = (e3, w3)"
    by (cases "sendRequest env c url body (time_Sleep retryInterval w2)")
  show ?thesis
    by (subst IndexDocument_for_1)
       (simp add: a1 a2 a3 IndexDocument_for_2 IndexDocument_for_3 Let_def split: option.split)
qed

lemma sendRequest_result:
  "fst (sendRequest env c url body w) =
     (case NewRequest_error env url of
        Some e \<Rightarrow> Some (CreatingRequest e)
      | None \<Rightarrow>
          (case Do_result env (calls w) of
             TransportError e \<Rightarrow> Some (SendingRequest e)
           | Response st b \<Rightarrow>
               if st \<ge> 400
               then (case b of None \<Rightarrow> Some (StatusUnreadable st)
                             | Some t \<Rightarrow> Some (StatusResponse st t))
               else None))"
  by (simp add: sendRequest_def client_Do_def Let_def split: option.split http_result.split)

lemma sendRequest_world:
  "snd (sendRequest env c url body w) =
     (case NewRequest_error env url of
        Some e \<Rightarrow> w
      | None \<Rightarrow>
          w\<lparr>calls := calls w + 1,
            trace := trace w @
              [Do \<lparr>req_method = ''POST'', req_url = url,
                    req_header = [(''Content-Type'', ''application/json''),
                                  (''Authorization'', ''ApiKey '' @ APIKey (config c))],
                    req_body = body\<rparr>]\<rparr>)"
  by (simp add: sendRequest_def client_Do_def Let_def split: option.split http_result.split)

text \<open>
  C2, as stated, fails in one part: an attempt also fails when \<^verbatim>\<open>http.NewRequest\<close> rejects
  the URL. With the base URL \<open>":"\<close> no request is ever sent (the transport is not called,
  and it would have answered 200), yet every attempt fails, and after three attempts and
  two pauses the error carries the construction error.
\<close>

theorem request_construction_failure_counterexample:
  "fst (sendRequest env_unparsable_url \<lparr>config = \<lparr>URL = '':'', APIKey = ''key'', Index = ''docs''\<rparr>\<rparr>
          '':/docs/_doc'' ([] :: real doc) new_world) = Some (CreatingRequest ''missing protocol scheme'') \<and>
   Do_result env_unparsable_url 0 = Response 200 (Some '''') \<and>
   IndexDocument env_unparsable_url \<lparr>config = \<lparr>URL = '':'', APIKey = ''key'', Index = ''docs''\<rparr>\<rparr>
       ([] :: real doc) new_world =
     (Some (AllRetriesFailed (Some (CreatingRequest ''missing protocol scheme''))),
      \<lparr>calls = 0, trace = [Sleep 1000000000, Sleep 1000000000]\<rparr>)"
  by (simp add: IndexDocument_def json_Marshal_def IndexDocument_for_unrolled sendRequest_def
        env_unparsable_url_def new_world_def time_Sleep_def retryInterval_def time_Second_def)

text \<open>
  C2, amended. \<^verbatim>\<open>IndexDocument\<close> makes at most three attempts. It returns success as soon
  as one attempt succeeds, with the world as that attempt left it. An attempt fails iff the
  request cannot be constructed, the transport call returns an error, or the response
  status is at least 400. After a failed first or second attempt it sleeps for one second
  (\<open>10\<^sup>9\<close> nanoseconds) and tries again; after a failed third attempt it returns, without
  sleeping, the error that wraps the cause of that last attempt: the construction error,
  the transport error, or the status code with the response body when the body could be
  read and without it otherwise.
\<close>

theorem IndexDocument_retry_policy:
  "IndexDocument env c data w =
     (let url = URL (config c) @ ''/'' @ Index (config c) @ ''/_doc'';
          a1 = sendRequest env c url data w;
          a2 = sendRequest env c url data (time_Sleep retryInterval (snd a1));
          a3 = sendRequest env c url data (time_Sleep retryInterval (snd a2))
      in if fst a1 = None then (None, snd a1)
         else if fst a2 = None then (None, snd a2)
         else if fst a3 = None then (None, snd a3)
         else (Some (AllRetriesFailed (fst a3)), snd a3)) \<and>
   calls (snd (IndexDocument env c data w)) \<le> calls w + 3 \<and>
   time_Sleep retryInterval w = w\<lparr>trace := trace w @ [Sleep 1000000000]\<rparr> \<and>
   fst (sendRequest env c u data w) =
     (case NewRequest_error env u of
        Some e \<Rightarrow> Some (CreatingRequest e)
      | None \<Rightarrow>
          (case Do_result env (calls w) of
             TransportError e \<Rightarrow> Some (SendingRequest e)
           | Response st b \<Rightarrow>
               if st \<ge> 400
               then (case b of None \<Rightarrow> Some (StatusUnreadable st)
                             | Some t \<Rightarrow> Some (StatusResponse st t))
               else None)) \<and>
   snd (sendRequest env c u data w) =
     (case NewRequest_error env u of
        Some e \<Rightarrow> w
      | None \<Rightarrow>
          w\<lparr>calls := calls w + 1,
            trace := trace w @
              [Do \<lparr>req_method = ''POST'', req_url = u,
                    req_header = [(''Content-Type'', ''application/json''),
                                  (''Authorization'', ''ApiKey '' @ APIKey (config c))],
                    req_body = data\<rparr>]\<rparr>)"
proof -
  have 1: "IndexDocument env c data w =
     (let url = URL (config c) @ ''/'' @ Index (config c) @ ''/_doc'';
          a1 = sendRequest env c url data w;
          a2 = sendRequest env c url data (time_Sleep retryInterval (snd a1));
          a3 = sendRequest env c url data (time_Sleep retryInterval (snd a2))
      in if fst a1 = None then (None, snd a1)
         else if fst a2 = None then (None, snd a2)
         else if fst a3 = None then (None, snd a3)
         else (Some (AllRetriesFailed (fst a3)), snd a3))"
    by (simp add: IndexDocument_def json_Marshal_def IndexDocument_for_unrolled Let_def)
  have 2: "time_Sleep retryInterval w = w\<lparr>trace := trace w @ [Sleep 1000000000]\<rparr>"
    by (simp add: time_Sleep_def retryInterval_def time_Second_def)
  have 3: "calls (snd (IndexDocument env c data w)) \<le> calls w + 3"
    by (simp add: IndexDocument_def json_Marshal_def IndexDocument_for_unrolled Let_def
          sendRequest_world time_Sleep_def split: option.split)
  show ?thesis
    using 1 2 3 sendRequest_result [of env c u data w]
      sendRequest_world [of env c u data w]
    by (simp only:)
qed

text \<open>
  The policy at two concrete services: one that always answers 500 (three requests, two
  pauses, then the error of the third), and one that answers at the third attempt.
\<close>

theorem IndexDocument_retry_policy_examples:
  "IndexDocument env_always_500 es_docs [(''name'', JStr ''x'' :: real json)] new_world =
     (Some (AllRetriesFailed (Some (StatusResponse 500 ''unavailable''))),
      \<lparr>calls = 3,
        trace =
          [Do \<lparr>req_method = ''POST'', req_url = ''https://es:9200/docs/_doc'',
                req_header = [(''Content-Type'', ''application/json''), (''Authorization'', ''ApiKey key'')],
                req_body = [(''name'', JStr ''x'')]\<rparr>,
           Sleep 1000000000,
           Do \<lparr>req_method = ''POST'', req_url = ''https://es:9200/docs/_doc'',
                req_header = [(''Content-Type'', ''application/json''), (''Authorization'', ''ApiKey key'')],
                req_body = [(''name'', JStr ''x'')]\<rparr>,
           Sleep 1000000000,
           Do \<lparr>req_method = ''POST'', req_url = ''https://es:9200/docs/_doc'',
                req_header = [(''Content-Type'', ''application/json''), (''Authorization'', ''ApiKey key'')],
                req_body = [(''name'', JStr ''x'')]\<rparr>]\<rparr>) \<and>
   fst (IndexDocument env_third_time_lucky es_docs [(''name'', JStr ''x'' :: real json)] new_world) = None \<and>
   calls (snd (IndexDocument env_third_time_lucky es_docs [(''name'', JStr ''x'' :: real json)] new_world)) = 3"
  using IndexDocument_retry_policy [of env_always_500 es_docs "[(''name'', JStr ''x'' :: real json)]" new_world]
        IndexDocument_retry_policy [of env_third_time_lucky es_docs "[(''name'', JStr ''x'' :: real json)]" new_world]
  by (simp add: sendRequest_def client_Do_def env_always_500_def env_third_time_lucky_def
        es_docs_def new_world_def time_Sleep_def retryInterval_def time_Second_def Let_def)

section \<open>The worker: what the caller is told\<close>

lemma json_Encode_fresh:
  "json_Encode v (Header_Set ''Content-Type'' ''application/json'' NewResponseWriter) =
     \<lparr>Header = [(''Content-Type'', ''application/json'')], StatusCode = Some 200,
       written = [Json v]\<rparr>"
  by (simp add: json_Encode_def Write_def WriteHeader_def Header_Set_def NewResponseWriter_def
        http_StatusOK_def)

lemma processRequest_decoded:
  "W req = NewResponseWriter \<Longrightarrow> Method (R req) = ''POST'' \<Longrightarrow> Body (R req) = Bytes b \<Longrightarrow>
   json_Unmarshal b = Inr data \<Longrightarrow>
   processRequest env p req wd =
     (let res = IndexDocument env (es p) (SanitizeJSON data) wd
      in (\<lparr>Header = [(''Content-Type'', ''application/json'')], StatusCode = Some 200,
           written =
             [Json (JObj (if fst res = None
                then [(''status'', JStr ''success''),
                      (''message'', JStr ''Data processed successfully''),
                      (''data'', JObj (SanitizeJSON data))]
                else [(''status'', JStr ''warning''),
                      (''message'', JStr ''Request processed but failed to store in Elasticsearch''),
                      (''data'', JObj (SanitizeJSON data))]))]\<rparr>,
          snd res))"
  by (simp add: processRequest_def json_Encode_fresh Let_def
           split: prod.split option.split del: SanitizeJSON.simps)

text \<open>
  The outcomes of a request that is not indexed: a method other than POST gives 405, a
  body that cannot be read or decoded gives 400, each as plain text and without a call of
  the sanitizer or the indexing client. And one request end to end: a POST of
  \<open>{"name": "x", "empty": "", "nested": {"lastModifiedDate": null}}\<close> to a healthy service
  is answered with \<open>"success"\<close> and the data \<open>{"name": "x"}\<close>, which is what was sent on.
\<close>

lemma http_Error_fresh:
  "http_Error msg code (Header_Set ''Content-Type'' ''application/json'' NewResponseWriter) =
     \<lparr>Header = [(''Content-Type'', ''text/plain; charset=utf-8''),
                (''X-Content-Type-Options'', ''nosniff'')],
       StatusCode = Some code, written = [Text (msg @ [CHR 0x0A])]\<rparr>"
  by (simp add: http_Error_def Write_def WriteHeader_def Header_Set_def Header_Del_def
        NewResponseWriter_def)

lemma processRequest_method_not_allowed:
  "W req = NewResponseWriter \<Longrightarrow> Method (R req) \<noteq> ''POST'' \<Longrightarrow>
   processRequest env p req wd =
     (\<lparr>Header = [(''Content-Type'', ''text/plain; charset=utf-8''),
                 (''X-Content-Type-Options'', ''nosniff'')],
        StatusCode = Some 405,
        written = [Text (''Only POST method is allowed'' @ [CHR 0x0A])]\<rparr>, wd)"
  by (simp add: processRequest_def http_Error_fresh http_StatusMethodNotAllowed_def)

lemma processRequest_unreadable_body:
  "W req = NewResponseWriter \<Longrightarrow> Method (R req) = ''POST'' \<Longrightarrow> Body (R req) = ReadFails err \<Longrightarrow>
   processRequest env p req wd =
     (\<lparr>Header = [(''Content-Type'', ''text/plain; charset=utf-8''),
                 (''X-Content-Type-Options'', ''nosniff'')],
        StatusCode = Some 400,
        written = [Text (''Error reading body: '' @ err @ [CHR 0x0A])]\<rparr>, wd)"
  by (simp add: processRequest_def http_Error_fresh http_StatusBadRequest_def)

lemma processRequest_undecodable_body:
  "W req = NewResponseWriter \<Longrightarrow> Method (R req) = ''POST'' \<Longrightarrow> Body (R req) = Bytes b \<Longrightarrow>
   json_Unmarshal b = Inl err \<Longrightarrow>
   processRequest env p req wd =
     (\<lparr>Header = [(''Content-Type'', ''text/plain; charset=utf-8''),
                 (''X-Content-Type-Options'', ''nosniff'')],
        StatusCode = Some 400,
        written = [Text (''Error parsing JSON: '' @ err @ [CHR 0x0A])]\<rparr>, wd)"
  by (simp add: processRequest_def http_Error_fresh http_StatusBadRequest_def)

lemma processRequest_end_to_end:
  "processRequest env_healthy pool_docs
     (post (JObj [(''name'', JStr ''x''), (''empty'', JStr ''''),
                  (''nested'', JObj [(''lastModifiedDate'', JNull :: real json)])]))
     new_world =
     (\<lparr>Header = [(''Content-Type'', ''application/json'')], StatusCode = Some 200,
        written =
          [Json (JObj [(''status'', JStr ''success''),
                       (''message'', JStr ''Data processed successfully''),
                       (''data'', JObj [(''name'', JStr ''x'')])])]\<rparr>,
      \<lparr>calls = 1,
        trace =
          [Do \<lparr>req_method = ''POST'', req_url = ''https://es:9200/docs/_doc'',
                req_header = [(''Content-Type'', ''application/json''),
                              (''Authorization'', ''ApiKey key'')],
                req_body = [(''name'', JStr ''x'')]\<rparr>]\<rparr>)"
proof -
  let ?d = "[(''name'', JStr ''x''), (''empty'', JStr ''''),
             (''nested'', JObj [(''lastModifiedDate'', JNull :: real json)])]"
  have s: "SanitizeJSON ?d = [(''name'', JStr ''x'')]"
    by (simp add: SanitizeJSON_body.simps)
  have i: "IndexDocument env_healthy (es pool_docs) [(''name'', JStr ''x'' :: real json)] new_world =
     (None, \<lparr>calls = 1,
        trace =
          [Do \<lparr>req_method = ''POST'', req_url = ''https://es:9200/docs/_doc'',
                req_header = [(''Content-Type'', ''application/json''),
                              (''Authorization'', ''ApiKey key'')],
                req_body = [(''name'', JStr ''x'')]\<rparr>]\<rparr>)"
    by (simp add: IndexDocument_def json_Marshal_def IndexDocument_for_unrolled sendRequest_def
          client_Do_def env_healthy_def pool_docs_def es_docs_def new_world_def time_Sleep_def
          Let_def)
  show ?thesis
    using processRequest_decoded [of "post (JObj ?d)" "Denotes (JObj ?d)" ?d env_healthy pool_docs new_world] s i
    by (simp add: post_def Let_def del: SanitizeJSON.simps)
qed

text \<open>
  C5. When the indexing client returns an error for a POST request whose body decodes to
  a Document, the worker writes to the (fresh) response writer of the request the status
  200 and the JSON body \<open>{"status": "warning", "message": "Request processed but failed
  to store in Elasticsearch", "data": d}\<close>, where \<open>d\<close> is the sanitized Document.
\<close>

theorem delivery_failure_gives_warning:
  "W req = NewResponseWriter \<Longrightarrow> Method (R req) = ''POST'' \<Longrightarrow> Body (R req) = Bytes b \<Longrightarrow>
   json_Unmarshal b = Inr data \<Longrightarrow>
   fst (IndexDocument env (es p) (SanitizeJSON data) wd) = Some err \<Longrightarrow>
   fst (processRequest env p req wd) =
     \<lparr>Header = [(''Content-Type'', ''application/json'')], StatusCode = Some 200,
       written =
         [Json (JObj [(''status'', JStr ''warning''),
                      (''message'', JStr ''Request processed but failed to store in Elasticsearch''),
                      (''data'', JObj (SanitizeJSON data))])]\<rparr>"
  by (simp add: processRequest_decoded Let_def del: SanitizeJSON.simps)

text \<open>A service that always answers 500: the caller gets the warning with the sanitized Document.\<close>

theorem delivery_failure_gives_warning_witness:
  "W (post (JObj [(''name'', JStr ''x''), (''empty'', JStr ''''),
                  (''nested'', JObj [(''lastModifiedDate'', JNull :: real json)])])) = NewResponseWriter \<and>
   Method (R (post (JObj [(''name'', JStr ''x''), (''empty'', JStr ''''),
                  (''nested'', JObj [(''lastModifiedDate'', JNull :: real json)])]))) = ''POST'' \<and>
   Body (R (post (JObj [(''name'', JStr ''x''), (''empty'', JStr ''''),
                  (''nested'', JObj [(''lastModifiedDate'', JNull :: real json)])]))) =
     Bytes (Denotes (JObj [(''name'', JStr ''x''), (''empty'', JStr ''''),
                  (''nested'', JObj [(''lastModifiedDate'', JNull)])])) \<and>
   json_Unmarshal (Denotes (JObj [(''name'', JStr ''x''), (''empty'', JStr ''''),
                  (''nested'', JObj [(''lastModifiedDate'', JNull :: real json)])])) =
     Inr [(''name'', JStr ''x''), (''empty'', JStr ''''),
          (''nested'', JObj [(''lastModifiedDate'', JNull)])] \<and>
   fst (IndexDocument env_always_500 (es pool_docs)
          (SanitizeJSON [(''name'', JStr ''x''), (''empty'', JStr ''''),
                         (''nested'', JObj [(''lastModifiedDate'', JNull :: real json)])])
          new_world) =
     Some (AllRetriesFailed (Some (StatusResponse 500 ''unavailable''))) \<and>
   fst (processRequest env_always_500 pool_docs
          (post (JObj [(''name'', JStr ''x''), (''empty'', JStr ''''),
                       (''nested'', JObj [(''lastModifiedDate'', JNull :: real json)])]))
          new_world) =
     \<lparr>Header = [(''Content-Type'', ''application/json'')], StatusCode = Some 200,
       written =
         [Json (JObj [(''status'', JStr ''warning''),
                      (''message'', JStr ''Request processed but failed to store in Elasticsearch''),
                      (''data'', JObj [(''name'', JStr ''x'')])])]\<rparr>"
proof -
  let ?d = "[(''name'', JStr ''x''), (''empty'', JStr ''''),
             (''nested'', JObj [(''lastModifiedDate'', JNull :: real json)])]"
  have s: "SanitizeJSON ?d = [(''name'', JStr ''x'')]"
    by (simp add: SanitizeJSON_body.simps)
  have h0: "W (post (JObj ?d)) = NewResponseWriter" by (simp add: post_def)
  have h1: "Method (R (post (JObj ?d))) = ''POST''" by (simp add: post_def)
  have h2: "Body (R (post (JObj ?d))) = Bytes (Denotes (JObj ?d))" by (simp add: post_def)
  have h3: "json_Unmarshal (Denotes (JObj ?d)) = Inr ?d" by simp
  have h4: "fst (IndexDocument env_always_500 (es pool_docs) (SanitizeJSON ?d) new_world)
      = Some (AllRetriesFailed (Some (StatusResponse 500 ''unavailable'')))"
    unfolding s
    by (simp add: IndexDocument_def json_Marshal_def IndexDocument_for_unrolled sendRequest_def
          client_Do_def env_always_500_def pool_docs_def es_docs_def new_world_def
          time_Sleep_def Let_def)
  show ?thesis
    using delivery_failure_gives_warning [OF h0 h1 h2 h3 h4] h0 h1 h2 h3 h4 s
    by (simp only:)
qed

lemma IndexDocument_first_event:
  assumes "NewRequest_error env (URL (config c) @ ''/'' @ Index (config c) @ ''/_doc'') = None"
  shows "\<exists>rest. trace (snd (IndexDocument env c data w)) =
     trace w @
       Do \<lparr>req_method = ''POST'', req_url = URL (config c) @ ''/'' @ Index (config c) @ ''/_doc'',
            req_header = [(''Content-Type'', ''application/json''),
                          (''Authorization'', ''ApiKey '' @ APIKey (config c))],
            req_body = data\<rparr> # rest"
  using assms
  by (simp add: IndexDocument_def json_Marshal_def IndexDocument_for_unrolled Let_def
        sendRequest_world time_Sleep_def)

text \<open>
  C10. If the body of a POST request decodes to the empty object, to \<open>null\<close>, or to a
  Document that sanitizes to the empty Document, the empty Document is handed to the
  indexing client (whose first request, when it can be constructed, carries it as its
  body) and is the \<open>data\<close> field of the response, with status 200.
\<close>

theorem empty_document_is_forwarded:
  "W req = NewResponseWriter \<Longrightarrow> Method (R req) = ''POST'' \<Longrightarrow>
   Body (R req) = Bytes (Denotes v) \<Longrightarrow>
   v = JObj [] \<or> v = JNull \<or> (\<exists>data. v = JObj data \<and> SanitizeJSON data = []) \<Longrightarrow>
   processRequest env p req wd =
     (let res = IndexDocument env (es p) [] wd
      in (\<lparr>Header = [(''Content-Type'', ''application/json'')], StatusCode = Some 200,
           written =
             [Json (JObj (if fst res = None
                then [(''status'', JStr ''success''),
                      (''message'', JStr ''Data processed successfully''),
                      (''data'', JObj [])]
                else [(''status'', JStr ''warning''),
                      (''message'', JStr ''Request processed but failed to store in Elasticsearch''),
                      (''data'', JObj [])]))]\<rparr>,
          snd res)) \<and>
   (NewRequest_error env (URL (config (es p)) @ ''/'' @ Index (config (es p)) @ ''/_doc'') = None \<longrightarrow>
      (\<exists>rest. trace (snd (processRequest env p req wd)) =
         trace wd @
           Do \<lparr>req_method = ''POST'',
                req_url = URL (config (es p)) @ ''/'' @ Index (config (es p)) @ ''/_doc'',
                req_header = [(''Content-Type'', ''application/json''),
                              (''Authorization'', ''ApiKey '' @ APIKey (config (es p)))],
                req_body = []\<rparr> # rest))"
proof -
  assume w: "W req = NewResponseWriter" and m: "Method (R req) = ''POST''"
    and b: "Body (R req) = Bytes (Denotes v)"
    and v: "v = JObj [] \<or> v = JNull \<or> (\<exists>data. v = JObj data \<and> SanitizeJSON data = [])"
  from v obtain data where u: "json_Unmarshal (Denotes v) = Inr data" and s: "SanitizeJSON data = []"
    by auto
  have 1: "processRequest env p req wd =
     (let res = IndexDocument env (es p) [] wd
      in (\<lparr>Header = [(''Content-Type'', ''application/json'')], StatusCode = Some 200,
           written =
             [Json (JObj (if fst res = None
                then [(''status'', JStr ''success''),
                      (''message'', JStr ''Data processed successfully''),
                      (''data'', JObj [])]
                else [(''status'', JStr ''warning''),
                      (''message'', JStr ''Request processed but failed to store in Elasticsearch''),
                      (''data'', JObj [])]))]\<rparr>,
          snd res))"
    using processRequest_decoded [OF w m b u, of env p wd] s by (simp only:)
  have 2: "snd (processRequest env p req wd) = snd (IndexDocument env (es p) [] wd)"
    using 1 by (simp add: Let_def)
  show ?thesis
    using 1 2 IndexDocument_first_event [of env "es p" "[]" wd] by (simp only:) blast
qed

text \<open>
  A Document all of whose keys are stripped, and the literal \<open>null\<close>, sent to a healthy
  service.
\<close>

theorem empty_document_is_forwarded_witness:
  "W (post (JObj [(''..'', JNum (1::real)), (''lastModifiedDate'', JStr ''''),
                  (''n'', JObj [(''x'', JNull)])])) = NewResponseWriter \<and>
   Method (R (post (JObj [(''..'', JNum (1::real)), (''lastModifiedDate'', JStr ''''),
                  (''n'', JObj [(''x'', JNull)])]))) = ''POST'' \<and>
   Body (R (post (JObj [(''..'', JNum (1::real)), (''lastModifiedDate'', JStr ''''),
                  (''n'', JObj [(''x'', JNull)])]))) =
     Bytes (Denotes (JObj [(''..'', JNum 1), (''lastModifiedDate'', JStr ''''),
                  (''n'', JObj [(''x'', JNull)])])) \<and>
   SanitizeJSON [(''..'', JNum (1::real)), (''lastModifiedDate'', JStr ''''),
                 (''n'', JObj [(''x'', JNull)])] = [] \<and>
   NewRequest_error env_healthy ''https://es:9200/docs/_doc'' = None \<and>
   processRequest env_healthy pool_docs
      (post (JObj [(''..'', JNum (1::real)), (''lastModifiedDate'', JStr ''''),
                   (''n'', JObj [(''x'', JNull)])]))
      new_world =
     (\<lparr>Header = [(''Content-Type'', ''application/json'')], StatusCode = Some 200,
        written =
          [Json (JObj [(''status'', JStr ''success''),
                       (''message'', JStr ''Data processed successfully''),
                       (''data'', JObj [])])]\<rparr>,
      \<lparr>calls = 1,
        trace =
          [Do \<lparr>req_method = ''POST'', req_url = ''https://es:9200/docs/_doc'',
                req_header = [(''Content-Type'', ''application/json''),
                              (''Authorization'', ''ApiKey key'')],
                req_body = []\<rparr>]\<rparr>) \<and>
   processRequest env_healthy pool_docs (post (JNull :: real json)) new_world =
     (\<lparr>Header = [(''Content-Type'', ''application/json'')], StatusCode = Some 200,
        written =
          [Json (JObj [(''status'', JStr ''success''),
                       (''message'', JStr ''Data processed successfully''),
                       (''data'', JObj [])])]\<rparr>,
      \<lparr>calls = 1,
        trace =
          [Do \<lparr>req_method = ''POST'', req_url = ''https://es:9200/docs/_doc'',
                req_header = [(''Content-Type'', ''application/json''),
                              (''Authorization'', ''ApiKey key'')],
                req_body = []\<rparr>]\<rparr>)"
proof -
  let ?d = "[(''..'', JNum (1::real)), (''lastModifiedDate'', JStr ''''),
             (''n'', JObj [(''x'', JNull)])]"
  have s: "SanitizeJSON ?d = []"
    by (simp add: SanitizeJSON_body.simps)
  have h0: "W (post v) = NewResponseWriter" for v :: "real json" by (simp add: post_def)
  have h1: "Method (R (post v)) = ''POST''" for v :: "real json" by (simp add: post_def)
  have h2: "Body (R (post v)) = Bytes (Denotes v)" for v :: "real json" by (simp add: post_def)
  have h3: "JObj ?d = JObj [] \<or> JObj ?d = JNull \<or>
      (\<exists>data. JObj ?d = JObj data \<and> SanitizeJSON data = [])"
    using s by blast
  have h3': "(JNull :: real json) = JObj [] \<or> (JNull :: real json) = JNull \<or>
      (\<exists>data. (JNull :: real json) = JObj data \<and> SanitizeJSON data = [])"
    by simp
  have i: "IndexDocument env_healthy (es pool_docs) ([] :: real doc) new_world =
     (None, \<lparr>calls = 1,
        trace =
          [Do \<lparr>req_method = ''POST'', req_url = ''https://es:9200/docs/_doc'',
                req_header = [(''Content-Type'', ''application/json''),
                              (''Authorization'', ''ApiKey key'')],
                req_body = []\<rparr>]\<rparr>)"
    by (simp add: IndexDocument_def json_Marshal_def IndexDocument_for_unrolled sendRequest_def
          client_Do_def env_healthy_def pool_docs_def es_docs_def new_world_def time_Sleep_def
          Let_def)
  have n: "NewRequest_error env_healthy ''https://es:9200/docs/_doc'' = None"
    by (simp add: env_healthy_def)
  show ?thesis
    using empty_document_is_forwarded [OF h0 h1 h2 h3, of env_healthy pool_docs new_world]
      empty_document_is_forwarded [OF h0 h1 h2 h3', of env_healthy pool_docs new_world]
      h0 h1 h2 s i n
    by (simp add: Let_def del: SanitizeJSON.simps)
qed

end
